theory Spec2Isabelle
  imports Main "HOL-Library.Sublist"
begin

section \<open>Python text, numbers and containers\<close>

text \<open>
  A Python \<open>str\<close> is modelled as a \<open>string\<close> that holds the UTF-8 bytes of the text. The
  prompt templates of the module contain a few characters outside ASCII; each is written
  once, as the bytes of its encoding. UTF-8 is self-synchronising, so one text occurs inside
  another exactly when its bytes occur inside the other's bytes, and \<open>sublist\<close>
  (a contiguous run) is Python's \<open>in\<close> on strings.
\<close>

abbreviation nbsp :: string where
  "nbsp \<equiv> [CHR 0xC2, CHR 0xA0]"

abbreviation narrow_nbsp :: string where
  "narrow_nbsp \<equiv> [CHR 0xE2, CHR 0x80, CHR 0xAF]"

abbreviation nb_hyphen :: string where
  "nb_hyphen \<equiv> [CHR 0xE2, CHR 0x80, CHR 0x91]"

abbreviation bullet :: string where
  "bullet \<equiv> [CHR 0xE2, CHR 0x80, CHR 0xA2]"

abbreviation ldquo :: string where
  "ldquo \<equiv> [CHR 0xE2, CHR 0x80, CHR 0x9C]"

abbreviation rdquo :: string where
  "rdquo \<equiv> [CHR 0xE2, CHR 0x80, CHR 0x9D]"

abbreviation arrow :: string where
  "arrow \<equiv> [CHR 0xE2, CHR 0x86, CHR 0x92]"

abbreviation geq_sign :: string where
  "geq_sign \<equiv> [CHR 0xE2, CHR 0x89, CHR 0xA5]"

text \<open>
  \<open>str(n)\<close>, which is also what an f-string writes for an \<open>int\<close>: the decimal digits,
  with a leading minus sign for a negative number. Python's integers are unbounded, hence
  \<open>int\<close>. \<open>str_int\<close> is the text when the conversion is made; \<open>int_to_str\<close> below says
  when it is.
\<close>

definition digit_char :: "nat \<Rightarrow> char" where
  "digit_char d = ''0123456789'' ! d"

fun str_nat :: "nat \<Rightarrow> string" where
  "str_nat n = (if n < 10 then [digit_char n] else str_nat (n div 10) @ [digit_char (n mod 10)])"

declare str_nat.simps [simp del]

definition str_int :: "int \<Rightarrow> string" where
  "str_int i = (if i < 0 then CHR ''-'' # str_nat (nat (- i)) else str_nat (nat i))"

text \<open>
  What the module's operations can raise. An \<open>int\<close> is not always written: an interpreter
  with a limit on the conversion (\<open>sys.get_int_max_str_digits()\<close>, 4300 unless it is set
  otherwise, and 0 for no limit) raises \<open>ValueError\<close> for an \<open>int\<close> with more decimal digits
  than the limit; the sign is not counted. An interpreter without the limit is the case 0,
  and a limit that is set is at least 640. The limit is an argument of the model.
\<close>

datatype error = TypeError | AttributeError | ValueError

definition digits_within :: "nat \<Rightarrow> int \<Rightarrow> bool" where
  "digits_within max_str_digits i \<longleftrightarrow>
     max_str_digits = 0 \<or> length (str_nat (nat \<bar>i\<bar>)) \<le> max_str_digits"

definition int_to_str :: "nat \<Rightarrow> int \<Rightarrow> error + string" where
  "int_to_str max_str_digits i =
     (if digits_within max_str_digits i then Inr (str_int i) else Inl ValueError)"

text \<open>\<open>sep.join(xs)\<close>.\<close>

fun join :: "string \<Rightarrow> string list \<Rightarrow> string" where
  "join sep [] = []"
| "join sep [x] = x"
| "join sep (x # y # ys) = x @ sep @ join sep (y # ys)"

text \<open>\<open>range(n)\<close>: empty when \<open>n\<close> is zero or negative.\<close>

definition range_py :: "int \<Rightarrow> int list" where
  "range_py n = map int [0..<nat n]"

text \<open>\<open>enumerate(xs)\<close>: each element with its index, counted from zero.\<close>

definition enumerate_py :: "'a list \<Rightarrow> (int \<times> 'a) list" where
  "enumerate_py xs = zip (map int [0..<length xs]) xs"

text \<open>
  The slice \<open>xs[:n]\<close>. A negative \<open>n\<close> counts from the end of the list: \<open>xs[:-1]\<close> is
  all but the last element. Slicing never raises.
\<close>

definition slice_to :: "'a list \<Rightarrow> int \<Rightarrow> 'a list" where
  "slice_to xs n = (if n < 0 then take (nat (int (length xs) + n)) xs else take (nat n) xs)"

text \<open>
  \<open>s.upper()\<close> on the letters of ASCII. Bytes of characters outside ASCII are left as they
  are (Python also maps accented and non-Latin letters); in both, the result holds none of
  the letters \<open>a\<close> to \<open>z\<close>.
\<close>

definition ascii_lowercase :: string where
  "ascii_lowercase = ''abcdefghijklmnopqrstuvwxyz''"

definition ascii_uppercase :: string where
  "ascii_uppercase = ''ABCDEFGHIJKLMNOPQRSTUVWXYZ''"

definition upper_char :: "char \<Rightarrow> char" where
  "upper_char c = (case map_of (zip ascii_lowercase ascii_uppercase) c of None \<Rightarrow> c | Some u \<Rightarrow> u)"

definition upper :: "string \<Rightarrow> string" where
  "upper s = map upper_char s"

text \<open>\<open>d.get(k, default)\<close> on a dictionary given as its list of items.\<close>

definition dict_get :: "('k \<times> 'v) list \<Rightarrow> 'k \<Rightarrow> 'v \<Rightarrow> 'v" where
  "dict_get d k dflt = (case map_of d k of None \<Rightarrow> dflt | Some v \<Rightarrow> v)"

text \<open>
  A \<open>datetime.date\<close> and the text an f-string writes for it, \<open>YYYY-MM-DD\<close> (the ISO form,
  each field padded with zeros). The report operation of the specialised family reads
  \<open>date.today()\<close>; the model takes that date as an argument.
\<close>

record date =
  year :: nat
  month :: nat
  day :: nat

definition zfill :: "nat \<Rightarrow> string \<Rightarrow> string" where
  "zfill w s = replicate (w - length s) (CHR ''0'') @ s"

definition str_date :: "date \<Rightarrow> string" where
  "str_date d = zfill 4 (str_nat (year d)) @ ''-'' @ zfill 2 (str_nat (month d)) @ ''-''
     @ zfill 2 (str_nat (day d))"

section \<open>Values of type \<open>Any\<close> and \<open>json.dumps\<close>\<close>

text \<open>
  \<open>tools_info\<close> is a \<open>List[Dict[str, Any]]\<close>. The values such a dictionary may hold are
  the ones the JSON encoder has a rule for and, since the type is \<open>Any\<close>, every other
  object. A \<open>float\<close> is given by the text the encoder writes for it (its \<open>repr\<close>, or
  \<open>NaN\<close>, \<open>Infinity\<close>, \<open>-Infinity\<close>). \<open>PObject\<close> stands for an object of any type the
  encoder has no rule for (a function, a set, \<open>bytes\<close>, an instance of a class of one's own),
  and \<open>KOther\<close> for a dictionary key of a type other than \<open>str\<close>, \<open>int\<close>, \<open>float\<close>,
  \<open>bool\<close> and \<open>None\<close>. A value of the datatype is a finite tree: a container that
  contains itself is not among them.
\<close>

datatype pykey =
    KStr string
  | KInt int
  | KFloat string
  | KBool bool
  | KNone
  | KOther

datatype pyval =
    PNone
  | PBool bool
  | PInt int
  | PFloat string
  | PStr string
  | PList "pyval list"
  | PTuple "pyval list"
  | PDict "(pykey \<times> pyval) list"
  | PObject

type_synonym tool_info = "(string \<times> pyval) list"

text \<open>Running a list of computations in order; the first error is the result.\<close>

fun sequence :: "(error + 'a) list \<Rightarrow> error + 'a list" where
  "sequence [] = Inr []"
| "sequence (x # xs) =
     (case x of
        Inl e \<Rightarrow> Inl e
      | Inr v \<Rightarrow> (case sequence xs of Inl e \<Rightarrow> Inl e | Inr vs \<Rightarrow> Inr (v # vs)))"

text \<open>
  The encoder's string rule (\<open>ensure_ascii\<close> is on by default): the text between double
  quotes, with the quote and the backslash escaped, the control characters with a short
  form written so, and every other character outside the printable ASCII range written as
  \<open>\uXXXX\<close> (as a surrogate pair beyond the basic plane). The bytes of a character outside
  ASCII are put together to its code point first.
\<close>

abbreviation backslash :: char where
  "backslash \<equiv> CHR 0x5C"

definition hex_digit :: "nat \<Rightarrow> char" where
  "hex_digit d = ''0123456789abcdef'' ! d"

definition u_escape :: "nat \<Rightarrow> string" where
  "u_escape n = [backslash, CHR ''u'', hex_digit (n div 4096 mod 16), hex_digit (n div 256 mod 16),
     hex_digit (n div 16 mod 16), hex_digit (n mod 16)]"

definition escape_code_point :: "nat \<Rightarrow> string" where
  "escape_code_point n =
     (if n < 0x10000 then u_escape n
      else u_escape (0xD800 + (n - 0x10000) div 1024 mod 1024)
         @ u_escape (0xDC00 + (n - 0x10000) mod 1024))"

definition continuation :: "string \<Rightarrow> nat \<Rightarrow> nat" where
  "continuation cs k = (if k < length cs then of_char (cs ! k) mod 64 else 0)"

function escape_ascii :: "string \<Rightarrow> string" where
  "escape_ascii [] = []"
| "escape_ascii (c # cs) =
     (let b = (of_char c :: nat) in
      if b = 0x22 then [backslash, CHR 0x22] @ escape_ascii cs
      else if b = 0x5C then [backslash, backslash] @ escape_ascii cs
      else if b = 0x08 then [backslash, CHR ''b''] @ escape_ascii cs
      else if b = 0x0C then [backslash, CHR ''f''] @ escape_ascii cs
      else if b = 0x0A then [backslash, CHR ''n''] @ escape_ascii cs
      else if b = 0x0D then [backslash, CHR ''r''] @ escape_ascii cs
      else if b = 0x09 then [backslash, CHR ''t''] @ escape_ascii cs
      else if 0x20 \<le> b \<and> b \<le> 0x7E then c # escape_ascii cs
      else if b < 0x80 then u_escape b @ escape_ascii cs
      else if b < 0xE0 then
        escape_code_point (b mod 32 * 64 + continuation cs 0) @ escape_ascii (drop 1 cs)
      else if b < 0xF0 then
        escape_code_point (b mod 16 * 4096 + continuation cs 0 * 64 + continuation cs 1)
          @ escape_ascii (drop 2 cs)
      else
        escape_code_point (b mod 8 * 262144 + continuation cs 0 * 4096 + continuation cs 1 * 64
            + continuation cs 2)
          @ escape_ascii (drop 3 cs))"
  by pat_completeness auto
termination
  by (relation "measure length") auto

declare escape_ascii.simps [simp del]

definition encode_basestring_ascii :: "string \<Rightarrow> string" where
  "encode_basestring_ascii s = [CHR 0x22] @ escape_ascii s @ [CHR 0x22]"

text \<open>
  \<open>json.dumps(o, indent=2)\<close>. With an indent, the items of a non-empty list, tuple or
  dictionary stand on lines of their own, two more spaces in than the enclosing bracket,
  separated by a comma; a key and its value are separated by a colon and a space. A key
  that is not a text is turned into one first, and then written like a text. The chunks
  are produced from left to right, and the first step that raises ends the call:
  \<open>TypeError\<close> for an object or a key the encoder has no rule for, \<open>ValueError\<close> for an
  \<open>int\<close> past the digit limit.
\<close>

definition newline_indent :: "nat \<Rightarrow> string" where
  "newline_indent level = CHR ''\<newline>'' # replicate (2 * level) (CHR '' '')"

fun key_to_str :: "nat \<Rightarrow> pykey \<Rightarrow> error + string" where
  "key_to_str max_str_digits (KStr s) = Inr s"
| "key_to_str max_str_digits (KFloat r) = Inr r"
| "key_to_str max_str_digits (KBool b) = Inr (if b then ''true'' else ''false'')"
| "key_to_str max_str_digits KNone = Inr ''null''"
| "key_to_str max_str_digits (KInt i) = int_to_str max_str_digits i"
| "key_to_str max_str_digits KOther = Inl TypeError"

fun iterencode :: "nat \<Rightarrow> nat \<Rightarrow> pyval \<Rightarrow> error + string" where
  "iterencode max_str_digits level PNone = Inr ''null''"
| "iterencode max_str_digits level (PBool b) = Inr (if b then ''true'' else ''false'')"
| "iterencode max_str_digits level (PInt i) = int_to_str max_str_digits i"
| "iterencode max_str_digits level (PFloat r) = Inr r"
| "iterencode max_str_digits level (PStr s) = Inr (encode_basestring_ascii s)"
| "iterencode max_str_digits level (PList xs) =
     (if xs = [] then Inr ''[]''
      else case sequence (map (iterencode max_str_digits (Suc level)) xs) of
             Inl e \<Rightarrow> Inl e
           | Inr chunks \<Rightarrow>
               Inr (''['' @ newline_indent (Suc level)
                    @ join ('','' @ newline_indent (Suc level)) chunks
                    @ newline_indent level @ '']''))"
| "iterencode max_str_digits level (PTuple xs) =
     (if xs = [] then Inr ''[]''
      else case sequence (map (iterencode max_str_digits (Suc level)) xs) of
             Inl e \<Rightarrow> Inl e
           | Inr chunks \<Rightarrow>
               Inr (''['' @ newline_indent (Suc level)
                    @ join ('','' @ newline_indent (Suc level)) chunks
                    @ newline_indent level @ '']''))"
| "iterencode max_str_digits level (PDict kvs) =
     (if kvs = [] then Inr ''{}''
      else case sequence
                  (map (\<lambda>(k, v).
                          case key_to_str max_str_digits k of
                            Inl e \<Rightarrow> Inl e
                          | Inr ks \<Rightarrow>
                              (case iterencode max_str_digits (Suc level) v of
                                 Inl e \<Rightarrow> Inl e
                               | Inr s \<Rightarrow> Inr (encode_basestring_ascii ks @ '': '' @ s))) kvs) of
             Inl e \<Rightarrow> Inl e
           | Inr chunks \<Rightarrow>
               Inr (''{'' @ newline_indent (Suc level)
                    @ join ('','' @ newline_indent (Suc level)) chunks
                    @ newline_indent level @ ''}''))"
| "iterencode max_str_digits level PObject = Inl TypeError"

definition json_dumps :: "nat \<Rightarrow> pyval \<Rightarrow> error + string" where
  "json_dumps max_str_digits obj = iterencode max_str_digits 0 obj"

text \<open>
  Values that \<open>json.dumps\<close> encodes: those with no object and no key of a foreign type in
  them, and with every \<open>int\<close> within the digit limit.
\<close>

fun key_encodable :: "nat \<Rightarrow> pykey \<Rightarrow> bool" where
  "key_encodable max_str_digits (KInt i) = digits_within max_str_digits i"
| "key_encodable max_str_digits KOther = False"
| "key_encodable max_str_digits k = True"

fun json_encodable :: "nat \<Rightarrow> pyval \<Rightarrow> bool" where
  "json_encodable max_str_digits (PInt i) = digits_within max_str_digits i"
| "json_encodable max_str_digits (PList xs) = list_all (json_encodable max_str_digits) xs"
| "json_encodable max_str_digits (PTuple xs) = list_all (json_encodable max_str_digits) xs"
| "json_encodable max_str_digits (PDict kvs) =
     list_all (\<lambda>(k, v). key_encodable max_str_digits k \<and> json_encodable max_str_digits v) kvs"
| "json_encodable max_str_digits PObject = False"
| "json_encodable max_str_digits v = True"

section \<open>Documents and the document formatter\<close>

text \<open>
  A \<open>Document\<close> of the retrieval library: a dictionary of metadata and the body text. The
  metadata values the formatter reads are texts. \<open>d.metadata.get(k)\<close> is \<open>None\<close> for a
  missing key, and an f-string writes \<open>None\<close> as the word \<open>None\<close>.
\<close>

record document =
  metadata :: "string \<rightharpoonup> string"
  page_content :: string

definition format_optional :: "string option \<Rightarrow> string" where
  "format_optional v = (case v of None \<Rightarrow> ''None'' | Some s \<Rightarrow> s)"

definition format_doc :: "document \<Rightarrow> string" where
  "format_doc d =
     ''Source: '' @ format_optional (metadata d ''source'')
     @ ''\<newline>Title: '' @ format_optional (metadata d ''title'')
     @ ''\<newline>Content: '' @ page_content d"

text \<open>
  The generator expression of \<open>pretty_print_docs\<close>: one block for each document whose index
  passes the test \<open>top_n is None or i < top_n\<close>.
\<close>

definition pretty_print_docs_blocks :: "document list \<Rightarrow> int option \<Rightarrow> string list" where
  "pretty_print_docs_blocks docs top_n =
     [format_doc d. (i, d) \<leftarrow> enumerate_py docs, (case top_n of None \<Rightarrow> True | Some n \<Rightarrow> i < n)]"

definition pretty_print_docs :: "document list \<Rightarrow> int option \<Rightarrow> string" where
  "pretty_print_docs docs top_n = join ''\<newline>'' (pretty_print_docs_blocks docs top_n)"

text \<open>
  The number of blocks as the specification words it,
  \<open>min(top_n or len(documents), len(documents))\<close>, where Python's \<open>or\<close> takes its second
  operand when the first is \<open>None\<close> or zero.
\<close>

definition specified_block_count :: "document list \<Rightarrow> int option \<Rightarrow> int" where
  "specified_block_count docs top_n =
     min (case top_n of None \<Rightarrow> int (length docs)
          | Some n \<Rightarrow> if n = 0 then int (length docs) else n)
         (int (length docs))"

section \<open>The base prompt family\<close>

text \<open>
  Each operation is given twice: under the name it has in the source, as a function of the
  values of all its parameters; and with the suffix \<open>_call\<close>, as it is called, where an
  optional parameter that the caller leaves out (\<open>None\<close> in the record of keyword
  arguments) takes the default value of the \<open>def\<close> line.
\<close>

type_synonym search_context = "(string \<times> pyval) list list option"

definition PromptFamily_generate_search_queries_prompt ::
  "string \<Rightarrow> string \<Rightarrow> string \<Rightarrow> int \<Rightarrow> search_context \<Rightarrow> string" where
  \<open>PromptFamily_generate_search_queries_prompt question parent_query report_type max_iterations
       context =
     (let task = (if parent_query \<noteq> [] then parent_query @ '' - '' @ question else question);
          dynamic_example =
            join '', '' (map (\<lambda>i. ''"query '' @ str_int (i + 1) @ ''"'') (range_py max_iterations))
      in ''Write '' @ str_int max_iterations @ '' web search queries to learn about: "'' @ task
         @ ''".\<newline>''
         @ ''Return a Python list '' @ arrow @ '' ['' @ dynamic_example @ ''] only.'')\<close>

definition PromptFamily_generate_report_prompt ::
  "string \<Rightarrow> string \<Rightarrow> string \<Rightarrow> string \<Rightarrow> int \<Rightarrow> string option \<Rightarrow> string \<Rightarrow> string" where
  \<open>PromptFamily_generate_report_prompt question context report_source report_format total_words
       tone language =
     (let tone_clause =
            (case tone of
               None \<Rightarrow> []
             | Some t \<Rightarrow> if t \<noteq> [] then ''Write in a '' @ t @ '' tone.'' else [])
      in ''Information gathered: "'' @ context @ ''"\<newline>---\<newline>''
         @ ''Using that information, draft a '' @ str_int total_words
         @ ''+ word report answering: "'' @ question @ ''".\<newline>''
         @ bullet @ '' Use markdown + '' @ upper report_format @ '' citations.\<newline>''
         @ bullet @ '' '' @ tone_clause @ ''\<newline>''
         @ bullet @ '' Language: '' @ language @ ''.\<newline>'')\<close>

record search_kwargs =
  kw_max_iterations :: "int option"
  kw_context :: search_context

record report_kwargs =
  kw_report_format :: "string option"
  kw_total_words :: "int option"
  kw_tone :: "string option option"
  kw_language :: "string option"

text \<open>
  In \<open>kw_tone\<close> the outer \<open>None\<close> is a call without the argument and \<open>Some None\<close> is
  \<open>tone=None\<close>. \<open>omitted\<close> is a call that gives the required arguments only.
\<close>

definition omitted :: report_kwargs where
  "omitted = \<lparr>kw_report_format = None, kw_total_words = None, kw_tone = None, kw_language = None\<rparr>"

definition or_default :: "'a option \<Rightarrow> 'a \<Rightarrow> 'a" where
  "or_default arg dflt = (case arg of None \<Rightarrow> dflt | Some v \<Rightarrow> v)"

definition PromptFamily_generate_search_queries_prompt_call ::
  "string \<Rightarrow> string \<Rightarrow> string \<Rightarrow> search_kwargs \<Rightarrow> string" where
  "PromptFamily_generate_search_queries_prompt_call question parent_query report_type kw =
     PromptFamily_generate_search_queries_prompt question parent_query report_type
       (or_default (kw_max_iterations kw) 3) (kw_context kw)"

definition PromptFamily_generate_report_prompt_call ::
  "string \<Rightarrow> string \<Rightarrow> string \<Rightarrow> report_kwargs \<Rightarrow> string" where
  "PromptFamily_generate_report_prompt_call question context report_source kw =
     PromptFamily_generate_report_prompt question context report_source
       (or_default (kw_report_format kw) ''apa'') (or_default (kw_total_words kw) 1000)
       (or_default (kw_tone kw) None) (or_default (kw_language kw) ''english'')"

section \<open>The family for FAR Part 10 market research\<close>

definition PRIMARY_SOURCES :: "string list" where
  "PRIMARY_SOURCES =
     [''GSA eLibrary'',
      ''GSA Advantage'',
      ''USAspending.gov'',
      ''SBA Dynamic Small Business Search (DSBS)'',
      ''Federal Procurement Data System (FPDS)'']"

text \<open>
  The list comprehension of the search-query operation: one quoted entry for each of the
  first \<open>max_iterations\<close> primary sources, taken by the slice
  \<open>_PRIMARY_SOURCES[:max_iterations]\<close>.
\<close>

definition FARPart10_example_entries :: "string \<Rightarrow> int \<Rightarrow> string list" where
  \<open>FARPart10_example_entries task max_iterations =
     map (\<lambda>s. ''"'' @ s @ '' '' @ task @ ''"'') (slice_to PRIMARY_SOURCES max_iterations)\<close>

text \<open>The first of the two lines of the prompt, with the instruction and the source names.\<close>

definition FARPart10_search_instruction :: "int \<Rightarrow> string" where
  "FARPart10_search_instruction max_iterations =
     (let gov_hint = join '', '' PRIMARY_SOURCES
      in ''You are performing FAR'' @ nbsp @ ''Part'' @ nbsp
         @ ''10 market research.  Generate up to '' @ str_int max_iterations @ '' highly''
         @ nb_hyphen @ ''targeted '' @ ldquo @ ''site:'' @ rdquo
         @ '' or keyword queries that will surface contractor information from these primary systems first: ''
         @ gov_hint @ ''.  \<newline>'')"

definition FARPart10PromptFamily_generate_search_queries_prompt ::
  "string \<Rightarrow> string \<Rightarrow> string \<Rightarrow> int \<Rightarrow> search_context \<Rightarrow> string" where
  \<open>FARPart10PromptFamily_generate_search_queries_prompt question parent_query report_type
       max_iterations context =
     (let task = (if parent_query \<noteq> [] then parent_query @ '' - '' @ question else question);
          dynamic_example = join '', '' (FARPart10_example_entries task max_iterations)
      in FARPart10_search_instruction max_iterations
         @ ''Task: "'' @ task @ ''". Return ONLY a Python list, e.g. ['' @ dynamic_example
         @ ''].'')\<close>

text \<open>
  The tool-selection operation can raise, in \<open>json.dumps\<close> and then in writing
  \<open>max_tools\<close>; its first argument here is the digit limit of the interpreter. The keys of
  the dictionaries of \<open>tools_info\<close> are texts.
\<close>

definition FARPart10PromptFamily_generate_mcp_tool_selection_prompt ::
  "nat \<Rightarrow> string \<Rightarrow> tool_info list \<Rightarrow> int \<Rightarrow> error + string" where
  \<open>FARPart10PromptFamily_generate_mcp_tool_selection_prompt max_str_digits query tools_info
       max_tools =
     (let far_lang = ''When selecting tools, prefer those that query authoritative government acquisition data sets (GSA, FPDS, USAspending, SBA DSBS) before generic web search utilities.''
      in case json_dumps max_str_digits
                (PList (map (\<lambda>t. PDict (map (\<lambda>(k, v). (KStr k, v)) t)) tools_info)) of
           Inl e \<Rightarrow> Inl e
         | Inr tools_json \<Rightarrow>
             (case int_to_str max_str_digits max_tools of
                Inl e \<Rightarrow> Inl e
              | Inr max_tools_text \<Rightarrow>
                  Inr (''You are a FAR'' @ narrow_nbsp @ ''Part'' @ narrow_nbsp @ ''10 market''
                       @ nb_hyphen @ ''research assistant.  '' @ far_lang @ ''\<newline>\<newline>''
                       @ ''RESEARCH QUERY: "'' @ query @ ''"\<newline>\<newline>''
                       @ ''AVAILABLE TOOLS:\<newline>'' @ tools_json @ ''\<newline>\<newline>''
                       @ ''Select EXACTLY '' @ max_tools_text
                       @ '' tools best suited to gather competitive sourcing information.  Return the JSON object described below.'')))\<close>

definition FARPart10PromptFamily_generate_report_prompt ::
  "date \<Rightarrow> string \<Rightarrow> string \<Rightarrow> string \<Rightarrow> string \<Rightarrow> int \<Rightarrow> string option \<Rightarrow> string \<Rightarrow> string" where
  \<open>FARPart10PromptFamily_generate_report_prompt today question context report_source report_format
       total_words tone language =
     (let tone_clause =
            (case tone of
               None \<Rightarrow> []
             | Some t \<Rightarrow> if t \<noteq> [] then ''Write in a '' @ t @ '' tone.'' else []);
          source_clause =
            (if report_source = ''web''
             then ''List contract numbers & links from each cited system at the end.'' else [])
      in ''Information collected: \<newline>"'' @ context @ ''"\<newline>---\<newline>''
         @ ''Draft a concise FAR'' @ nbsp @ ''Part'' @ nbsp @ ''10 market research report (''
         @ geq_sign @ str_int total_words @ '' words) addressing: "'' @ question @ ''".\<newline>''
         @ ''Required elements:\<newline>''
         @ ''1. Potential sources and their socio'' @ nb_hyphen
         @ ''economic status (e.g., Small, 8(a), HUBZone).\<newline>''
         @ ''2. Contract vehicles (GSA schedules, BPAs, IDIQs) where the requirement could be placed.\<newline>''
         @ ''3. Recent relevant contract awards with pricing data.\<newline>''
         @ ''4. Assessment of competition & capability.\<newline>''
         @ ''5. Recommendation (adequate competition? set'' @ nb_hyphen @ ''aside feasible?).\<newline>''
         @ bullet @ '' Use markdown + '' @ upper report_format @ '' citations.\<newline>''
         @ bullet @ '' '' @ tone_clause @ ''  '' @ bullet @ '' '' @ source_clause @ ''\<newline>''
         @ bullet @ '' Date: '' @ str_date today @ ''.  Language: '' @ language @ ''.'')\<close>

record tool_kwargs =
  kw_max_tools :: "int option"

definition FARPart10PromptFamily_generate_search_queries_prompt_call ::
  "string \<Rightarrow> string \<Rightarrow> string \<Rightarrow> search_kwargs \<Rightarrow> string" where
  "FARPart10PromptFamily_generate_search_queries_prompt_call question parent_query report_type kw =
     FARPart10PromptFamily_generate_search_queries_prompt question parent_query report_type
       (or_default (kw_max_iterations kw) 3) (kw_context kw)"

definition FARPart10PromptFamily_generate_mcp_tool_selection_prompt_call ::
  "nat \<Rightarrow> string \<Rightarrow> tool_info list \<Rightarrow> tool_kwargs \<Rightarrow> error + string" where
  "FARPart10PromptFamily_generate_mcp_tool_selection_prompt_call max_str_digits query tools_info kw =
     FARPart10PromptFamily_generate_mcp_tool_selection_prompt max_str_digits query tools_info
       (or_default (kw_max_tools kw) 3)"

definition FARPart10PromptFamily_generate_report_prompt_call ::
  "date \<Rightarrow> string \<Rightarrow> string \<Rightarrow> string \<Rightarrow> report_kwargs \<Rightarrow> string" where
  "FARPart10PromptFamily_generate_report_prompt_call today question context report_source kw =
     FARPart10PromptFamily_generate_report_prompt today question context report_source
       (or_default (kw_report_format kw) ''apa'') (or_default (kw_total_words kw) 800)
       (or_default (kw_tone kw) (Some ''objective'')) (or_default (kw_language kw) ''english'')"

text \<open>
  The texts the claims about the report prompt name: the five required elements, each as
  the numbered line of the template, and the directive on contract numbers.
\<close>

definition required_element_markers :: "string list" where
  "required_element_markers =
     [''1. Potential sources and their socio'' @ nb_hyphen
        @ ''economic status (e.g., Small, 8(a), HUBZone).'',
      ''2. Contract vehicles (GSA schedules, BPAs, IDIQs) where the requirement could be placed.'',
      ''3. Recent relevant contract awards with pricing data.'',
      ''4. Assessment of competition & capability.'',
      ''5. Recommendation (adequate competition? set'' @ nb_hyphen @ ''aside feasible?).'']"

definition contract_numbers_directive :: string where
  "contract_numbers_directive = ''List contract numbers & links from each cited system at the end.''"

text \<open>The words every tone directive starts with.\<close>

definition tone_directive_opening :: string where
  "tone_directive_opening = ''Write in a ''"

section \<open>Registries, factory and lookup\<close>

text \<open>
  The two classes, and an instance: its class and the configuration that \<open>__init__\<close> stores
  in \<open>self.cfg\<close>. The configuration is opaque to the module.

  The model is of the module once it is loaded. The annotations of the parameters play no
  part in it; the annotation of the two configuration parameters, a string literal joined
  to \<open>None\<close> by \<open>|\<close>, is an expression that raises \<open>TypeError\<close> when it is evaluated, so
  the module loads only where annotations are evaluated on demand.
\<close>

datatype family_class = PromptFamily | FARPart10PromptFamily

record 'cfg prompt_family =
  cls :: family_class
  cfg :: "'cfg option"

text \<open>
  What an attribute of an instance can be: the stored configuration, the list of primary
  sources, or one of the operations, a function with the defaults of its \<open>def\<close> line. The
  report operations are given the date the clock shows; the base family does not read it.
  The tool-selection operation is given the digit limit of the interpreter.
\<close>

datatype 'cfg attribute =
    Attr_cfg "'cfg option"
  | Attr_primary_sources "string list"
  | Attr_pretty_print_docs "document list \<Rightarrow> int option \<Rightarrow> string"
  | Attr_search_queries "string \<Rightarrow> string \<Rightarrow> string \<Rightarrow> search_kwargs \<Rightarrow> string"
  | Attr_tool_selection "nat \<Rightarrow> string \<Rightarrow> tool_info list \<Rightarrow> tool_kwargs \<Rightarrow> error + string"
  | Attr_report "date \<Rightarrow> string \<Rightarrow> string \<Rightarrow> string \<Rightarrow> report_kwargs \<Rightarrow> string"

text \<open>
  The names each class body defines. The subclass overrides two operations, adds one, and
  inherits \<open>pretty_print_docs\<close>. (The attributes every Python object has from \<open>object\<close> are
  not listed; no lookup of the module asks for them.)
\<close>

definition PromptFamily_namespace :: "(string \<times> 'cfg attribute) list" where
  "PromptFamily_namespace =
     [(''pretty_print_docs'', Attr_pretty_print_docs pretty_print_docs),
      (''generate_search_queries_prompt'',
         Attr_search_queries PromptFamily_generate_search_queries_prompt_call),
      (''generate_report_prompt'',
         Attr_report (\<lambda>today. PromptFamily_generate_report_prompt_call))]"

definition FARPart10PromptFamily_namespace :: "(string \<times> 'cfg attribute) list" where
  "FARPart10PromptFamily_namespace =
     [(''_PRIMARY_SOURCES'', Attr_primary_sources PRIMARY_SOURCES),
      (''generate_search_queries_prompt'',
         Attr_search_queries FARPart10PromptFamily_generate_search_queries_prompt_call),
      (''generate_mcp_tool_selection_prompt'',
         Attr_tool_selection FARPart10PromptFamily_generate_mcp_tool_selection_prompt_call),
      (''generate_report_prompt'',
         Attr_report FARPart10PromptFamily_generate_report_prompt_call)]"

text \<open>The classes searched for an attribute, the class itself first.\<close>

fun mro :: "family_class \<Rightarrow> (string \<times> 'cfg attribute) list list" where
  "mro PromptFamily = [PromptFamily_namespace]"
| "mro FARPart10PromptFamily = [FARPart10PromptFamily_namespace, PromptFamily_namespace]"

fun lookup_mro :: "(string \<times> 'a) list list \<Rightarrow> string \<Rightarrow> 'a option" where
  "lookup_mro [] name = None"
| "lookup_mro (ns # rest) name =
     (case map_of ns name of Some v \<Rightarrow> Some v | None \<Rightarrow> lookup_mro rest name)"

text \<open>\<open>getattr(obj, name)\<close>; a name that is not found raises \<open>AttributeError\<close>.\<close>

definition getattr :: "'cfg prompt_family \<Rightarrow> string \<Rightarrow> error + 'cfg attribute" where
  "getattr obj name =
     (if name = ''cfg'' then Inr (Attr_cfg (cfg obj))
      else case lookup_mro (mro (cls obj)) name of
             None \<Rightarrow> Inl AttributeError
           | Some v \<Rightarrow> Inr v)"

definition report_type_mapping :: "(string \<times> string) list" where
  "report_type_mapping = [(''ResearchReport'', ''generate_report_prompt'')]"

definition get_prompt_by_report_type ::
  "string \<Rightarrow> 'cfg prompt_family \<Rightarrow> error + 'cfg attribute" where
  "get_prompt_by_report_type report_type prompt_family =
     (let method_name = dict_get report_type_mapping report_type ''generate_report_prompt''
      in getattr prompt_family method_name)"

definition prompt_family_mapping :: "(string \<times> family_class) list" where
  "prompt_family_mapping = [(''Default'', PromptFamily), (''FARPart10'', FARPart10PromptFamily)]"

text \<open>
  \<open>get_prompt_family\<close> returns the instance; the second component is the list of the
  warnings it gave to \<open>warnings.warn\<close> on the way.
\<close>

definition get_prompt_family :: "string \<Rightarrow> 'cfg option \<Rightarrow> 'cfg prompt_family \<times> string list" where
  "get_prompt_family name config =
     (let c = dict_get prompt_family_mapping name PromptFamily;
          warned =
            (if name \<notin> set (map fst prompt_family_mapping)
             then [''Unknown prompt family '' @ [CHR 0x27] @ name @ [CHR 0x27] @ '', using Default.'']
             else [])
      in (\<lparr>cls = c, cfg = config\<rparr>, warned))"

section \<open>The steps that can raise\<close>

text \<open>
  The definitions of the formatter and of the query and report operations above give the
  text a call returns. A call returns unless one of its steps raises, and the only step
  of these operations that can is the writing of an \<open>int\<close> in an f-string. The functions
  below take the digit limit of the interpreter, run those steps in the order of the source
  and give the error of the first that raises, or else the text. In the base family the
  list comprehension writes \<open>i + 1\<close> for each \<open>i\<close> of the range before the f-string of the
  \<open>return\<close> writes \<open>max_iterations\<close>. The formatter writes no \<open>int\<close>, and \<open>dict.get\<close> gives
  \<open>None\<close> for a missing key where indexing would raise. Running out of memory or of stack
  is not modelled.
\<close>

definition pretty_print_docs_checked :: "document list \<Rightarrow> int option \<Rightarrow> error + string" where
  "pretty_print_docs_checked docs top_n = Inr (pretty_print_docs docs top_n)"

definition PromptFamily_generate_search_queries_prompt_checked ::
  "nat \<Rightarrow> string \<Rightarrow> string \<Rightarrow> string \<Rightarrow> int \<Rightarrow> search_context \<Rightarrow> error + string" where
  "PromptFamily_generate_search_queries_prompt_checked max_str_digits question parent_query
       report_type max_iterations context =
     (case sequence (map (\<lambda>i. int_to_str max_str_digits (i + 1)) (range_py max_iterations)) of
        Inl e \<Rightarrow> Inl e
      | Inr written \<Rightarrow>
          (case int_to_str max_str_digits max_iterations of
             Inl e \<Rightarrow> Inl e
           | Inr n \<Rightarrow>
               Inr (PromptFamily_generate_search_queries_prompt question parent_query report_type
                      max_iterations context)))"

definition PromptFamily_generate_report_prompt_checked ::
  "nat \<Rightarrow> string \<Rightarrow> string \<Rightarrow> string \<Rightarrow> string \<Rightarrow> int \<Rightarrow> string option \<Rightarrow> string
     \<Rightarrow> error + string" where
  "PromptFamily_generate_report_prompt_checked max_str_digits question context report_source
       report_format total_words tone language =
     (case int_to_str max_str_digits total_words of
        Inl e \<Rightarrow> Inl e
      | Inr n \<Rightarrow>
          Inr (PromptFamily_generate_report_prompt question context report_source report_format
                 total_words tone language))"

definition FARPart10PromptFamily_generate_search_queries_prompt_checked ::
  "nat \<Rightarrow> string \<Rightarrow> string \<Rightarrow> string \<Rightarrow> int \<Rightarrow> search_context \<Rightarrow> error + string" where
  "FARPart10PromptFamily_generate_search_queries_prompt_checked max_str_digits question
       parent_query report_type max_iterations context =
     (case int_to_str max_str_digits max_iterations of
        Inl e \<Rightarrow> Inl e
      | Inr n \<Rightarrow>
          Inr (FARPart10PromptFamily_generate_search_queries_prompt question parent_query
                 report_type max_iterations context))"

definition FARPart10PromptFamily_generate_report_prompt_checked ::
  "nat \<Rightarrow> date \<Rightarrow> string \<Rightarrow> string \<Rightarrow> string \<Rightarrow> string \<Rightarrow> int \<Rightarrow> string option \<Rightarrow> string
     \<Rightarrow> error + string" where
  "FARPart10PromptFamily_generate_report_prompt_checked max_str_digits today question context
       report_source report_format total_words tone language =
     (case int_to_str max_str_digits total_words of
        Inl e \<Rightarrow> Inl e
      | Inr n \<Rightarrow>
          Inr (FARPart10PromptFamily_generate_report_prompt today question context report_source
                 report_format total_words tone language))"

section \<open>The report templates, piece by piece\<close>

text \<open>
  For the proofs: the tone clause that both report operations compute from \<open>tone\<close>, and
  the longer stretches of fixed text of the specialised report template, cut where a value
  is put in.
\<close>

definition tone_clause :: "string option \<Rightarrow> string" where
  "tone_clause tone =
     (case tone of None \<Rightarrow> [] | Some t \<Rightarrow> if t \<noteq> [] then ''Write in a '' @ t @ '' tone.'' else [])"

definition far_text_open :: string where
  \<open>far_text_open = ''Information collected: \<newline>"''\<close>

definition far_text_draft :: string where
  \<open>far_text_draft = ''\<newline>---\<newline>Draft a concise FAR'' @ nbsp @ ''Part'' @ nbsp
     @ ''10 market research report ('' @ geq_sign\<close>

definition far_text_addressing :: string where
  \<open>far_text_addressing = '' words) addressing: "''\<close>

definition far_text_elements :: string where
  \<open>far_text_elements = ''.\<newline>Required elements:\<newline>''
     @ join ''\<newline>'' required_element_markers @ ''\<newline>'' @ bullet @ '' Use markdown + ''\<close>

section \<open>Occurrences of one text in another\<close>

text \<open>
  \<open>sublist p s\<close> says that \<open>p\<close> occurs in \<open>s\<close>. The prompts are fixed text with the
  caller's values put in between; the lemmas below tell where in such a text a pattern can
  occur.
\<close>

lemma sublist_if_eq: "ys = ps @ xs @ ss \<Longrightarrow> sublist xs ys"
  by simp

lemma sublist_join: "x \<in> set xs \<Longrightarrow> sublist x (join sep xs)"
proof (induction sep xs rule: join.induct)
  case (1 sep)
  then show ?case by simp
next
  case (2 sep y)
  then show ?case by simp
next
  case (3 sep y z zs)
  show ?case
  proof (cases "x = y")
    case True
    then show ?thesis by simp
  next
    case False
    with 3 have "sublist x (join sep (z # zs))" by simp
    then have "sublist x ((y @ sep) @ join sep (z # zs))"
      by (meson sublist_append)
    then show ?thesis by simp
  qed
qed

lemma not_sublist_char: "c \<in> set p \<Longrightarrow> c \<notin> set xs \<Longrightarrow> \<not> sublist p xs"
  using set_mono_sublist by fastforce

text \<open>A character that is not in the pattern cuts the text in two.\<close>

lemma sublist_separator:
  assumes "c \<notin> set p"
  shows "sublist p (xs @ c # ys) \<longleftrightarrow> sublist p xs \<or> sublist p ys"
proof
  assume "sublist p (xs @ c # ys)"
  then consider "sublist p xs" | "sublist p (c # ys)"
    | p1 p2 where "p = p1 @ p2" "suffix p1 xs" "prefix p2 (c # ys)"
    by (auto simp add: sublist_append)
  then show "sublist p xs \<or> sublist p ys"
  proof cases
    case 1
    then show ?thesis by simp
  next
    case 2
    then have "prefix p (c # ys) \<or> sublist p ys" by (simp add: sublist_Cons_right)
    moreover have "prefix p (c # ys) \<Longrightarrow> p = []"
      using assms by (cases p) auto
    ultimately show ?thesis by auto
  next
    case 3
    from 3(3) assms 3(1) have "p2 = []" by (cases p2) auto
    with 3 show ?thesis by auto
  qed
next
  assume "sublist p xs \<or> sublist p ys"
  then show "sublist p (xs @ c # ys)"
    by (auto simp add: sublist_append sublist_Cons_right)
qed

text \<open>An occurrence cannot begin in a text that lacks the first character of the pattern.\<close>

lemma sublist_skip_left:
  assumes "c \<notin> set xs"
  shows "sublist (c # p) (xs @ ys) \<longleftrightarrow> sublist (c # p) ys"
proof
  assume "sublist (c # p) (xs @ ys)"
  then consider "sublist (c # p) xs" | "sublist (c # p) ys"
    | p1 p2 where "c # p = p1 @ p2" "suffix p1 xs" "prefix p2 ys"
    by (auto simp add: sublist_append)
  then show "sublist (c # p) ys"
  proof cases
    case 1
    with assms show ?thesis using not_sublist_char[of c "c # p" xs] by simp
  next
    case 2
    then show ?thesis .
  next
    case 3
    show ?thesis
    proof (cases p1)
      case Nil
      with 3 show ?thesis by simp
    next
      case (Cons a as)
      with 3(1) have "a = c" by simp
      with Cons 3(2) have "c \<in> set xs" using set_mono_suffix by fastforce
      with assms show ?thesis by simp
    qed
  qed
next
  assume "sublist (c # p) ys"
  then show "sublist (c # p) (xs @ ys)" by (simp add: sublist_append)
qed

text \<open>Nor can it end in a text that lacks the last character.\<close>

lemma sublist_skip_right:
  assumes "c \<notin> set ys"
  shows "sublist (p @ [c]) (xs @ ys) \<longleftrightarrow> sublist (p @ [c]) xs"
proof -
  have "sublist (p @ [c]) (xs @ ys) \<longleftrightarrow> sublist (c # rev p) (rev ys @ rev xs)"
    using sublist_rev[of "p @ [c]" "xs @ ys"] by simp
  also have "\<dots> \<longleftrightarrow> sublist (c # rev p) (rev xs)"
    using assms by (intro sublist_skip_left) simp
  also have "\<dots> \<longleftrightarrow> sublist (p @ [c]) xs"
    using sublist_rev[of "p @ [c]" xs] by simp
  finally show ?thesis .
qed

text \<open>
  The same when the fixed text ends with the last character of the pattern, but the
  characters before it differ.
\<close>

lemma sublist_skip_right_but_last:
  assumes "c \<notin> set ys" and "e \<noteq> f" and "c \<noteq> f"
  shows "sublist (p @ [e, c]) (xs @ ys @ [f, c]) \<longleftrightarrow> sublist (p @ [e, c]) xs"
proof -
  have "sublist (p @ [e, c]) (xs @ ys @ [f, c])
      \<longleftrightarrow> sublist (c # e # rev p) (c # (f # rev ys) @ rev xs)"
    using sublist_rev[of "p @ [e, c]" "xs @ ys @ [f, c]"] by simp
  also have "\<dots> \<longleftrightarrow> sublist (c # e # rev p) ((f # rev ys) @ rev xs)"
    using assms(2) by (simp add: sublist_Cons_right[of _ c])
  also have "\<dots> \<longleftrightarrow> sublist (c # e # rev p) (rev xs)"
    using assms by (intro sublist_skip_left) auto
  also have "\<dots> \<longleftrightarrow> sublist (p @ [e, c]) xs"
    using sublist_rev[of "p @ [e, c]" xs] by simp
  finally show ?thesis .
qed

text \<open>
  When the second character of the pattern is not in \<open>u\<close>, an occurrence in \<open>u @ x\<close> lies
  in \<open>x\<close>, but for its first character at most.
\<close>

lemma sublist_second_char:
  assumes "b \<notin> set u" and "sublist (a # b # p) (u @ x)"
  shows "sublist (a # b # p) x \<or> prefix (b # p) x"
proof -
  from assms(2) consider "sublist (a # b # p) u" | "sublist (a # b # p) x"
    | p1 p2 where "a # b # p = p1 @ p2" "suffix p1 u" "prefix p2 x"
    by (auto simp add: sublist_append)
  then show ?thesis
  proof cases
    case 1
    with assms(1) show ?thesis using not_sublist_char[of b "a # b # p" u] by simp
  next
    case 2
    then show ?thesis by simp
  next
    case 3
    show ?thesis
    proof (cases p1)
      case Nil
      with 3 show ?thesis by simp
    next
      case (Cons a' p1')
      note p1 = this
      show ?thesis
      proof (cases p1')
        case Nil
        with p1 3 show ?thesis by simp
      next
        case (Cons b' p1'')
        with p1 3(1) have "b \<in> set p1" by auto
        with 3(2) have "b \<in> set u" using set_mono_suffix by fastforce
        with assms(1) show ?thesis by simp
      qed
    qed
  qed
qed

section \<open>Numbers, dates and upper case as text\<close>

lemma digit_char_in: "d < 10 \<Longrightarrow> digit_char d \<in> set ''0123456789''"
  unfolding digit_char_def by (rule nth_mem) simp

lemma set_str_nat: "set (str_nat n) \<subseteq> set ''0123456789''"
proof (induction n rule: str_nat.induct)
  case (1 n)
  show ?case
  proof (cases "n < 10")
    case True
    then show ?thesis using digit_char_in[of n] by (subst str_nat.simps) simp
  next
    case False
    have "n mod 10 < 10" by simp
    with False 1 show ?thesis
      using digit_char_in[of "n mod 10"] by (subst str_nat.simps) simp
  qed
qed

lemma in_str_nat: "c \<in> set (str_nat n) \<Longrightarrow> c \<in> set ''0123456789''"
  using set_str_nat by blast

lemma in_zfill: "c \<in> set (zfill w s) \<Longrightarrow> c = CHR ''0'' \<or> c \<in> set s"
  by (auto simp add: zfill_def)

lemma in_zfill_str_nat: "c \<in> set (zfill w (str_nat n)) \<Longrightarrow> c \<in> set ''0123456789''"
proof -
  assume "c \<in> set (zfill w (str_nat n))"
  then have "c = CHR ''0'' \<or> c \<in> set (str_nat n)" by (rule in_zfill)
  then show ?thesis
  proof
    assume "c = CHR ''0''"
    then show ?thesis by simp
  next
    assume "c \<in> set (str_nat n)"
    then show ?thesis by (rule in_str_nat)
  qed
qed

lemma in_str_date: "c \<in> set (str_date d) \<Longrightarrow> c \<in> set ''-0123456789''"
proof -
  assume "c \<in> set (str_date d)"
  then have "c \<in> set (zfill 4 (str_nat (year d))) \<or> c = CHR ''-''
      \<or> c \<in> set (zfill 2 (str_nat (month d))) \<or> c \<in> set (zfill 2 (str_nat (day d)))"
    by (auto simp add: str_date_def)
  moreover have "c \<in> set ''-0123456789''" if "c \<in> set ''0123456789''"
    using that by simp
  ultimately show ?thesis
    using in_zfill_str_nat[of c 4 "year d"] in_zfill_str_nat[of c 2 "month d"]
      in_zfill_str_nat[of c 2 "day d"]
    by fastforce
qed

lemma in_str_int: "c \<in> set (str_int i) \<Longrightarrow> c \<in> set ''-0123456789''"
proof -
  assume "c \<in> set (str_int i)"
  then have "c = CHR ''-'' \<or> c \<in> set (str_nat (nat (- i))) \<or> c \<in> set (str_nat (nat i))"
    by (auto simp add: str_int_def split: if_splits)
  moreover have "c \<in> set ''-0123456789''" if "c \<in> set ''0123456789''"
    using that by simp
  ultimately show ?thesis
    using in_str_nat[of c "nat (- i)"] in_str_nat[of c "nat i"] by fastforce
qed

lemma letter_not_in_str_int: "c \<notin> set ''-0123456789'' \<Longrightarrow> c \<notin> set (str_int i)"
  using in_str_int by blast

lemma letter_not_in_str_date: "c \<notin> set ''-0123456789'' \<Longrightarrow> c \<notin> set (str_date d)"
  using in_str_date by blast

lemma str_int_800: "str_int 800 = ''800''"
  by (simp add: str_int_def str_nat.simps digit_char_def)

lemma str_int_1000: "str_int 1000 = ''1000''"
  by (simp add: str_int_def str_nat.simps digit_char_def)

lemma upper_char_not_lowercase: "upper_char c \<notin> set ascii_lowercase"
proof (cases "map_of (zip ascii_lowercase ascii_uppercase) c")
  case None
  then have "c \<notin> fst ` set (zip ascii_lowercase ascii_uppercase)"
    by (simp add: map_of_eq_None_iff)
  moreover have "fst ` set (zip ascii_lowercase ascii_uppercase) = set ascii_lowercase"
    by (simp add: ascii_lowercase_def ascii_uppercase_def)
  ultimately show ?thesis using None by (simp add: upper_char_def)
next
  case (Some u)
  then have "u \<in> set ascii_uppercase"
    by (meson map_of_SomeD set_zip_rightD)
  moreover have "set ascii_uppercase \<inter> set ascii_lowercase = {}"
    by (simp add: ascii_lowercase_def ascii_uppercase_def)
  ultimately show ?thesis using Some by (auto simp add: upper_char_def)
qed

lemma upper_no_lowercase: "c \<in> set ascii_lowercase \<Longrightarrow> c \<notin> set (upper s)"
  using upper_char_not_lowercase by (auto simp add: upper_def)

section \<open>The document formatter\<close>

lemma enumerate_py_snoc: "enumerate_py (xs @ [x]) = enumerate_py xs @ [(int (length xs), x)]"
  by (simp add: enumerate_py_def)

lemma pretty_print_docs_blocks_Nil: "pretty_print_docs_blocks [] top_n = []"
  by (simp add: pretty_print_docs_blocks_def enumerate_py_def)

lemma pretty_print_docs_blocks_snoc:
  "pretty_print_docs_blocks (docs @ [d]) top_n =
     pretty_print_docs_blocks docs top_n
     @ (if (case top_n of None \<Rightarrow> True | Some n \<Rightarrow> int (length docs) < n)
        then [format_doc d] else [])"
  by (simp add: pretty_print_docs_blocks_def enumerate_py_snoc)

lemma pretty_print_docs_blocks_None: "pretty_print_docs_blocks docs None = map format_doc docs"
  by (induction docs rule: rev_induct)
    (simp_all add: pretty_print_docs_blocks_Nil pretty_print_docs_blocks_snoc)

lemma pretty_print_docs_blocks_Some:
  "pretty_print_docs_blocks docs (Some n) = map format_doc (take (nat n) docs)"
proof (induction docs rule: rev_induct)
  case Nil
  show ?case by (simp add: pretty_print_docs_blocks_Nil)
next
  case (snoc d docs)
  show ?case
  proof (cases "int (length docs) < n")
    case True
    then have "length docs < nat n" by linarith
    with True snoc show ?thesis by (simp add: pretty_print_docs_blocks_snoc)
  next
    case False
    then have "nat n \<le> length docs" by linarith
    with False snoc show ?thesis by (simp add: pretty_print_docs_blocks_snoc)
  qed
qed

lemma format_doc_labels:
  "sublist ''Source:'' (format_doc d) \<and> sublist ''Title:'' (format_doc d)
     \<and> sublist ''Content:'' (format_doc d)"
proof -
  let ?s = "format_optional (metadata d ''source'')"
  let ?t = "format_optional (metadata d ''title'')"
  have a: "sublist ''Source:'' (format_doc d)"
    by (rule sublist_if_eq[where ps = "[]"
          and ss = "'' '' @ ?s @ ''\<newline>Title: '' @ ?t @ ''\<newline>Content: '' @ page_content d"])
      (simp add: format_doc_def)
  have b: "sublist ''Title:'' (format_doc d)"
    by (rule sublist_if_eq[where ps = "''Source: '' @ ?s @ ''\<newline>''"
          and ss = "'' '' @ ?t @ ''\<newline>Content: '' @ page_content d"])
      (simp add: format_doc_def)
  have c: "sublist ''Content:'' (format_doc d)"
    by (rule sublist_if_eq[where ps = "''Source: '' @ ?s @ ''\<newline>Title: '' @ ?t @ ''\<newline>''"
          and ss = "'' '' @ page_content d"])
      (simp add: format_doc_def)
  from a b c show ?thesis by simp
qed

text \<open>
  Claim C1, as the code has it. \<open>pretty_print_docs\<close> joins, with a newline between them, one
  block for each of the first \<open>top_n\<close> documents, in the order of the input: all documents
  when \<open>top_n\<close> is \<open>None\<close>, and otherwise \<open>min(max(top_n, 0), len(documents))\<close> of them, so
  none when \<open>top_n\<close> is zero or negative. Each block contains the labels \<open>Source:\<close>,
  \<open>Title:\<close> and \<open>Content:\<close>.
\<close>

theorem pretty_print_docs_first_top_n:
  "pretty_print_docs docs top_n = join ''\<newline>'' (pretty_print_docs_blocks docs top_n)
   \<and> pretty_print_docs_blocks docs top_n
       = map format_doc (case top_n of None \<Rightarrow> docs | Some n \<Rightarrow> take (nat n) docs)
   \<and> length (pretty_print_docs_blocks docs top_n)
       = (case top_n of None \<Rightarrow> length docs | Some n \<Rightarrow> min (nat n) (length docs))
   \<and> (\<forall>b \<in> set (pretty_print_docs_blocks docs top_n).
         sublist ''Source:'' b \<and> sublist ''Title:'' b \<and> sublist ''Content:'' b)"
proof (cases top_n)
  case None
  then show ?thesis
    using format_doc_labels
    by (auto simp add: pretty_print_docs_def pretty_print_docs_blocks_None)
next
  case (Some n)
  then show ?thesis
    using format_doc_labels
    by (auto simp add: pretty_print_docs_def pretty_print_docs_blocks_Some min.commute)
qed

theorem pretty_print_docs_first_top_n_witness:
  "pretty_print_docs_blocks
     [\<lparr>metadata = [''source'' \<mapsto> ''a''], page_content = ''x''\<rparr>,
      \<lparr>metadata = Map.empty, page_content = ''y''\<rparr>] (Some 1)
     = [''Source: a\<newline>Title: None\<newline>Content: x'']
   \<and> sublist ''Source:'' ''Source: a\<newline>Title: None\<newline>Content: x''
   \<and> sublist ''Title:'' ''Source: a\<newline>Title: None\<newline>Content: x''
   \<and> sublist ''Content:'' ''Source: a\<newline>Title: None\<newline>Content: x''"
  using pretty_print_docs_first_top_n
    [of "[\<lparr>metadata = [''source'' \<mapsto> ''a''], page_content = ''x''\<rparr>,
          \<lparr>metadata = Map.empty, page_content = ''y''\<rparr>]" "Some 1"]
  by (simp add: format_doc_def format_optional_def)

text \<open>
  With one document and \<open>top_n = 0\<close> the code returns no block, where the formula of the
  specification gives one: \<open>0 or len(documents)\<close> is \<open>len(documents)\<close>.
\<close>

theorem pretty_print_docs_top_n_zero_counterexample:
  "int (length (pretty_print_docs_blocks [\<lparr>metadata = Map.empty, page_content = ''x''\<rparr>] (Some 0)))
     \<noteq> specified_block_count [\<lparr>metadata = Map.empty, page_content = ''x''\<rparr>] (Some 0)"
  by (simp add: pretty_print_docs_blocks_Some specified_block_count_def)

section \<open>The search-query prompts\<close>

text \<open>
  Claim C6. In both families the task put into the prompt is the question itself when
  \<open>parent_query\<close> is empty, and for a non-empty \<open>parent_query\<close> \<open>P\<close> and question \<open>X\<close> it
  is \<open>P - X\<close>: the prompt is the one for the question \<open>P - X\<close> without a parent query. The
  specialised family repeats the task in each entry of its example list.
\<close>

theorem search_task_embedding:
  \<open>PromptFamily_generate_search_queries_prompt X [] report_type max_iterations context
     = ''Write '' @ str_int max_iterations @ '' web search queries to learn about: "'' @ X
       @ ''".\<newline>Return a Python list '' @ arrow @ '' [''
       @ join '', '' (map (\<lambda>i. ''"query '' @ str_int (i + 1) @ ''"'') (range_py max_iterations))
       @ ''] only.''
   \<and> FARPart10PromptFamily_generate_search_queries_prompt X [] report_type max_iterations context
     = FARPart10_search_instruction max_iterations @ ''Task: "'' @ X
       @ ''". Return ONLY a Python list, e.g. [''
       @ join '', '' (FARPart10_example_entries X max_iterations) @ ''].''
   \<and> (P \<noteq> [] \<longrightarrow>
        PromptFamily_generate_search_queries_prompt X P report_type max_iterations context
          = PromptFamily_generate_search_queries_prompt (P @ '' - '' @ X) [] report_type
              max_iterations context
        \<and> FARPart10PromptFamily_generate_search_queries_prompt X P report_type max_iterations
            context
          = FARPart10PromptFamily_generate_search_queries_prompt (P @ '' - '' @ X) [] report_type
              max_iterations context)\<close>
  by (simp add: PromptFamily_generate_search_queries_prompt_def
      FARPart10PromptFamily_generate_search_queries_prompt_def)

theorem search_task_embedding_witness:
  "PromptFamily_generate_search_queries_prompt ''X'' ''P'' ''t'' 2 None
     = PromptFamily_generate_search_queries_prompt ''P - X'' [] ''t'' 2 None
   \<and> FARPart10PromptFamily_generate_search_queries_prompt ''X'' ''P'' ''t'' 2 None
     = FARPart10PromptFamily_generate_search_queries_prompt ''P - X'' [] ''t'' 2 None"
  using search_task_embedding[of "''X''" "''t''" 2 None "''P''"]
  by simp

lemma length_slice_to:
  "length (slice_to xs n) = (if 0 \<le> n then min (nat n) (length xs) else nat (int (length xs) + n))"
  by (auto simp add: slice_to_def min_def)

lemma gov_hint_in_instruction:
  "sublist (join '', '' PRIMARY_SOURCES) (FARPart10_search_instruction max_iterations)"
  unfolding FARPart10_search_instruction_def Let_def
  by (rule sublist_if_eq[where ps = "''You are performing FAR'' @ nbsp @ ''Part'' @ nbsp
         @ ''10 market research.  Generate up to '' @ str_int max_iterations @ '' highly''
         @ nb_hyphen @ ''targeted '' @ ldquo @ ''site:'' @ rdquo
         @ '' or keyword queries that will surface contractor information from these primary systems first: ''"
       and ss = "''.  \<newline>''"])
    simp

lemma instruction_in_prompt:
  "sublist (FARPart10_search_instruction max_iterations)
     (FARPart10PromptFamily_generate_search_queries_prompt question parent_query report_type
        max_iterations context)"
  by (rule prefix_imp_sublist)
    (simp add: FARPart10PromptFamily_generate_search_queries_prompt_def Let_def)

text \<open>
  Claim C3, as the code has it. Whatever \<open>max_iterations\<close> is, each of the five primary
  sources is named in the instruction text, and so in the prompt, and the example list has
  at most five entries. When \<open>max_iterations\<close> is not negative the list has exactly
  \<open>min(max_iterations, 5)\<close> entries, one for each of the first \<open>max_iterations\<close> sources.
\<close>

theorem far_search_sources_and_examples:
  "(\<forall>s \<in> set PRIMARY_SOURCES.
      sublist s (FARPart10_search_instruction max_iterations)
      \<and> sublist s (FARPart10PromptFamily_generate_search_queries_prompt question parent_query
                     report_type max_iterations context))
   \<and> length PRIMARY_SOURCES = 5
   \<and> length (FARPart10_example_entries task max_iterations) \<le> 5
   \<and> (0 \<le> max_iterations \<longrightarrow>
        int (length (FARPart10_example_entries task max_iterations)) = min max_iterations 5
        \<and> FARPart10_example_entries task max_iterations
            = map (\<lambda>s. [CHR 0x22] @ s @ '' '' @ task @ [CHR 0x22])
                (take (nat max_iterations) PRIMARY_SOURCES))"
proof -
  have a: "sublist s (FARPart10_search_instruction max_iterations)"
    if "s \<in> set PRIMARY_SOURCES" for s
  proof -
    from that have "sublist s (join '', '' PRIMARY_SOURCES)" by (rule sublist_join)
    then show ?thesis using gov_hint_in_instruction by (rule sublist_order.order.trans)
  qed
  have b: "sublist s (FARPart10PromptFamily_generate_search_queries_prompt question parent_query
                     report_type max_iterations context)"
    if "s \<in> set PRIMARY_SOURCES" for s
    using a[OF that] instruction_in_prompt by (rule sublist_order.order.trans)
  have c: "length PRIMARY_SOURCES = 5"
    by (simp add: PRIMARY_SOURCES_def)
  have d: "length (FARPart10_example_entries task max_iterations)
       = (if 0 \<le> max_iterations then min (nat max_iterations) 5 else nat (5 + max_iterations))"
    by (simp add: FARPart10_example_entries_def length_slice_to c)
  have e: "length (FARPart10_example_entries task max_iterations) \<le> 5"
    unfolding d by (cases "0 \<le> max_iterations") simp_all
  have f: "int (length (FARPart10_example_entries task max_iterations)) = min max_iterations 5"
    if "0 \<le> max_iterations"
    using that unfolding d by simp
  have g: "FARPart10_example_entries task max_iterations
            = map (\<lambda>s. [CHR 0x22] @ s @ '' '' @ task @ [CHR 0x22])
                (take (nat max_iterations) PRIMARY_SOURCES)"
    if "0 \<le> max_iterations"
    using that by (simp add: FARPart10_example_entries_def slice_to_def)
  from a b c e f g show ?thesis by blast
qed

theorem far_search_sources_and_examples_witness:
  "sublist ''USAspending.gov'' (FARPart10_search_instruction 0)
   \<and> sublist ''USAspending.gov''
       (FARPart10PromptFamily_generate_search_queries_prompt ''q'' [] ''t'' 0 None)
   \<and> length (FARPart10_example_entries ''q'' 2) = 2
   \<and> length (FARPart10_example_entries ''q'' 7) = 5"
  using far_search_sources_and_examples[of 0 "''q''" "[]" "''t''" None "''q''"]
    far_search_sources_and_examples[of 2 "''q''" "[]" "''t''" None "''q''"]
    far_search_sources_and_examples[of 7 "''q''" "[]" "''t''" None "''q''"]
  by (simp add: PRIMARY_SOURCES_def)

text \<open>
  For \<open>max_iterations = -1\<close> the slice \<open>_PRIMARY_SOURCES[:-1]\<close> leaves out the last name
  only: the example list has four entries, more than \<open>min(max_iterations, 5) = -1\<close>.
\<close>

theorem far_search_negative_counterexample:
  "\<not> int (length (FARPart10_example_entries ''q'' (- 1))) \<le> min (- 1) 5"
  by (simp add: FARPart10_example_entries_def slice_to_def PRIMARY_SOURCES_def)

section \<open>The report prompts\<close>

text \<open>The two templates as the run of their fixed pieces and the values put in.\<close>

lemma far_report_shape:
  \<open>FARPart10PromptFamily_generate_report_prompt today question context report_source report_format
      total_words tone language
    = far_text_open @ context @ CHR 0x22 # far_text_draft @ str_int total_words
      @ far_text_addressing @ question @ CHR 0x22 # far_text_elements
      @ (upper report_format @ '' citations.'') @ CHR ''\<newline>'' # (bullet @ '' '')
      @ (tone_clause tone @ ''  '') @ CHR 0xE2 # [CHR 0x80, CHR 0xA2, CHR '' '']
      @ (if report_source = ''web'' then contract_numbers_directive else [])
      @ (''\<newline>'' @ bullet @ '' Date: '') @ str_date today @ ''.  Language''
      @ CHR '':'' # '' '' @ language @ ''.''\<close>
  by (simp add: FARPart10PromptFamily_generate_report_prompt_def far_text_open_def
      far_text_draft_def far_text_addressing_def far_text_elements_def tone_clause_def
      required_element_markers_def contract_numbers_directive_def)

lemma base_report_shape:
  \<open>PromptFamily_generate_report_prompt question context report_source report_format total_words
      tone language
    = ''Information gathered: "'' @ context
      @ CHR 0x22 # (''\<newline>---\<newline>Using that information, draft a '' @ str_int total_words
                    @ ''+ word report answering: "'')
      @ question
      @ CHR 0x22 # (''.\<newline>'' @ bullet @ '' Use markdown + '')
      @ (upper report_format @ '' citations.'')
      @ CHR ''\<newline>'' # (bullet @ '' '') @ tone_clause tone
      @ CHR ''\<newline>'' # (bullet @ '' Language: '') @ language @ CHR ''.'' # ''\<newline>''\<close>
  by (simp add: PromptFamily_generate_report_prompt_def tone_clause_def)

lemma far_report_not_base_report:
  "FARPart10PromptFamily_generate_report_prompt today question context report_source report_format
     total_words tone language
   \<noteq> PromptFamily_generate_report_prompt question' context' report_source' report_format'
       total_words' tone' language'"
  by (simp add: far_report_shape base_report_shape far_text_open_def)

subsection \<open>The required elements and the directive on contract numbers\<close>

lemma directive_Cons:
  "contract_numbers_directive
     = CHR ''L'' # CHR ''i'' # ''st contract numbers & links from each cited system at the end.''"
  by (simp add: contract_numbers_directive_def)

lemma directive_skip_left:
  "CHR ''L'' \<notin> set xs \<Longrightarrow>
     sublist contract_numbers_directive (xs @ ys) \<longleftrightarrow> sublist contract_numbers_directive ys"
  unfolding directive_Cons by (rule sublist_skip_left)

lemma directive_skip_right:
  "CHR ''.'' \<notin> set ys \<Longrightarrow>
     sublist contract_numbers_directive (xs @ ys) \<longleftrightarrow> sublist contract_numbers_directive xs"
  using sublist_skip_right[of "CHR ''.''" ys "''List contract numbers & links from each cited system at the end''" xs]
  by (simp add: contract_numbers_directive_def)

lemma directive_separator:
  "c \<notin> set contract_numbers_directive \<Longrightarrow>
     sublist contract_numbers_directive (xs @ c # ys)
       \<longleftrightarrow> sublist contract_numbers_directive xs \<or> sublist contract_numbers_directive ys"
  by (rule sublist_separator)

lemma directive_not_in_upper:
  "\<not> sublist contract_numbers_directive (upper s @ '' citations.'')"
proof
  assume "sublist contract_numbers_directive (upper s @ '' citations.'')"
  moreover have "CHR ''i'' \<notin> set (upper s)"
    by (rule upper_no_lowercase) (simp add: ascii_lowercase_def)
  ultimately have "sublist contract_numbers_directive '' citations.''
      \<or> prefix (CHR ''i'' # ''st contract numbers & links from each cited system at the end.'') '' citations.''"
    unfolding directive_Cons by (intro sublist_second_char)
  moreover have "\<not> sublist contract_numbers_directive '' citations.''"
    using sublist_length_le[of contract_numbers_directive "'' citations.''"]
    by (auto simp add: contract_numbers_directive_def)
  ultimately show False by simp
qed

lemma directive_in_tone_clause:
  "sublist contract_numbers_directive (tone_clause tone)
     \<longleftrightarrow> (\<exists>t. tone = Some t \<and> sublist contract_numbers_directive t)"
proof (cases tone)
  case None
  then show ?thesis by (simp add: tone_clause_def contract_numbers_directive_def)
next
  case (Some t)
  show ?thesis
  proof (cases "t = []")
    case True
    with Some show ?thesis by (simp add: tone_clause_def contract_numbers_directive_def)
  next
    case False
    have "sublist contract_numbers_directive (''Write in a '' @ t @ '' tone.'')
        \<longleftrightarrow> sublist contract_numbers_directive (t @ '' tone.'')"
      by (rule directive_skip_left) simp
    also have "\<dots> \<longleftrightarrow> sublist contract_numbers_directive t"
      using sublist_skip_right_but_last[of "CHR ''.''" "'' ton''" "CHR ''d''" "CHR ''e''"
          "''List contract numbers & links from each cited system at the en''" t]
      by (simp add: contract_numbers_directive_def)
    finally show ?thesis using Some False by (simp add: tone_clause_def)
  qed
qed

lemma directive_in_far_report:
  assumes "report_source \<noteq> ''web''"
  shows "sublist contract_numbers_directive
           (FARPart10PromptFamily_generate_report_prompt today question context report_source
              report_format total_words tone language)
     \<longleftrightarrow> sublist contract_numbers_directive context
         \<or> sublist contract_numbers_directive question
         \<or> (\<exists>t. tone = Some t \<and> sublist contract_numbers_directive t)
         \<or> sublist contract_numbers_directive (language @ ''.'')"
proof -
  let ?d = contract_numbers_directive
  let ?r7 = "''.  Language'' @ CHR '':'' # '' '' @ language @ ''.''"
  let ?r6 = "[CHR 0x80, CHR 0xA2, CHR '' ''] @ [] @ (''\<newline>'' @ bullet @ '' Date: '') @ str_date today @ ?r7"
  let ?r5 = "(bullet @ '' '') @ (tone_clause tone @ ''  '') @ CHR 0xE2 # ?r6"
  let ?r4 = "far_text_elements @ (upper report_format @ '' citations.'') @ CHR ''\<newline>'' # ?r5"
  let ?r3 = "far_text_draft @ str_int total_words @ far_text_addressing @ question @ CHR 0x22 # ?r4"
  have dq: "CHR 0x22 \<notin> set ?d" and nl: "CHR ''\<newline>'' \<notin> set ?d"
    and e2: "CHR 0xE2 \<notin> set ?d" and colon: "CHR '':'' \<notin> set ?d"
    by (simp_all add: contract_numbers_directive_def)
  have L_int: "CHR ''L'' \<notin> set (str_int total_words)"
    by (rule letter_not_in_str_int) simp
  have L_date: "CHR ''L'' \<notin> set (str_date today)"
    by (rule letter_not_in_str_date) simp
  have "sublist ?d (FARPart10PromptFamily_generate_report_prompt today question context
          report_source report_format total_words tone language)
      \<longleftrightarrow> sublist ?d (far_text_open @ context @ CHR 0x22 # ?r3)"
    using assms by (simp add: far_report_shape)
  also have "\<dots> \<longleftrightarrow> sublist ?d (context @ CHR 0x22 # ?r3)"
    by (rule directive_skip_left) (simp add: far_text_open_def)
  also have "\<dots> \<longleftrightarrow> sublist ?d context \<or> sublist ?d ?r3"
    using dq by (rule directive_separator)
  also have "sublist ?d ?r3
      \<longleftrightarrow> sublist ?d ((far_text_draft @ str_int total_words @ far_text_addressing) @ question @ CHR 0x22 # ?r4)"
    by simp
  also have "\<dots> \<longleftrightarrow> sublist ?d (question @ CHR 0x22 # ?r4)"
    using L_int by (intro directive_skip_left) (simp add: far_text_draft_def far_text_addressing_def)
  also have "\<dots> \<longleftrightarrow> sublist ?d question \<or> sublist ?d ?r4"
    using dq by (rule directive_separator)
  also have "sublist ?d ?r4 \<longleftrightarrow> sublist ?d ((upper report_format @ '' citations.'') @ CHR ''\<newline>'' # ?r5)"
    by (rule directive_skip_left)
      (simp add: far_text_elements_def required_element_markers_def)
  also have "\<dots> \<longleftrightarrow> sublist ?d (upper report_format @ '' citations.'') \<or> sublist ?d ?r5"
    using nl by (rule directive_separator)
  also have "\<dots> \<longleftrightarrow> sublist ?d ?r5"
    using directive_not_in_upper by simp
  also have "\<dots> \<longleftrightarrow> sublist ?d ((tone_clause tone @ ''  '') @ CHR 0xE2 # ?r6)"
    by (rule directive_skip_left) simp
  also have "\<dots> \<longleftrightarrow> sublist ?d (tone_clause tone @ ''  '') \<or> sublist ?d ?r6"
    using e2 by (rule directive_separator)
  also have "sublist ?d (tone_clause tone @ ''  '') \<longleftrightarrow> sublist ?d (tone_clause tone)"
    by (rule directive_skip_right) simp
  also have "\<dots> \<longleftrightarrow> (\<exists>t. tone = Some t \<and> sublist ?d t)"
    by (rule directive_in_tone_clause)
  also have "sublist ?d ?r6
      \<longleftrightarrow> sublist ?d (([CHR 0x80, CHR 0xA2, CHR '' ''] @ (''\<newline>'' @ bullet @ '' Date: '') @ str_date today) @ ?r7)"
    by simp
  also have "\<dots> \<longleftrightarrow> sublist ?d ?r7"
    using L_date by (intro directive_skip_left) simp
  also have "\<dots> \<longleftrightarrow> sublist ?d ''.  Language'' \<or> sublist ?d ('' '' @ language @ ''.'')"
    using colon directive_separator[of "CHR '':''" "''.  Language''" "'' '' @ language @ ''.''"]
    by simp
  also have "sublist ?d ''.  Language'' \<longleftrightarrow> False"
    using sublist_length_le[of ?d "''.  Language''"] by (auto simp add: contract_numbers_directive_def)
  also have "sublist ?d ('' '' @ language @ ''.'') \<longleftrightarrow> sublist ?d (language @ ''.'')"
    by (rule directive_skip_left) simp
  finally show ?thesis by blast
qed

lemma markers_in_far_report:
  assumes "m \<in> set required_element_markers"
  shows "sublist m (FARPart10PromptFamily_generate_report_prompt today question context
           report_source report_format total_words tone language)"
proof -
  have "sublist m (join ''\<newline>'' required_element_markers)"
    using assms by (rule sublist_join)
  also have "sublist (join ''\<newline>'' required_element_markers) far_text_elements"
    unfolding far_text_elements_def by (rule sublist_appendI)
  also have "sublist far_text_elements
      (FARPart10PromptFamily_generate_report_prompt today question context
           report_source report_format total_words tone language)"
    by (rule sublist_if_eq[where ps = "far_text_open @ context @ CHR 0x22 # far_text_draft
          @ str_int total_words @ far_text_addressing @ question @ [CHR 0x22]"])
      (simp add: far_report_shape)
  finally show ?thesis .
qed

lemma directive_in_far_web_report:
  "sublist contract_numbers_directive
     (FARPart10PromptFamily_generate_report_prompt today question context ''web'' report_format
        total_words tone language)"
  by (rule sublist_if_eq[where ps = "far_text_open @ context @ CHR 0x22 # far_text_draft
          @ str_int total_words @ far_text_addressing @ question @ CHR 0x22 # far_text_elements
          @ (upper report_format @ '' citations.'') @ CHR ''\<newline>'' # (bullet @ '' '')
          @ (tone_clause tone @ ''  '') @ CHR 0xE2 # [CHR 0x80, CHR 0xA2, CHR '' '']"])
    (simp add: far_report_shape)

lemma short_not_directive: "length xs < 64 \<Longrightarrow> \<not> sublist contract_numbers_directive xs"
  using sublist_length_le[of contract_numbers_directive xs]
  by (auto simp add: contract_numbers_directive_def)

text \<open>
  Claim C4, as the code has it. For every choice of arguments the report prompt of the
  specialised family contains the five required elements. It contains the directive on
  contract numbers exactly when \<open>report_source\<close> is \<open>web\<close> or the caller's own text brings
  the directive in: it occurs in \<open>context\<close>, in \<open>question\<close>, in \<open>tone\<close>, or in \<open>language\<close>
  followed by the full stop that ends the prompt. The values are put into the template as
  they are, so a directive in them is a directive in the prompt.
\<close>

theorem far_report_markers_and_directive:
  "(\<forall>m \<in> set required_element_markers.
      sublist m (FARPart10PromptFamily_generate_report_prompt today question context
                   report_source report_format total_words tone language))
   \<and> (sublist contract_numbers_directive
         (FARPart10PromptFamily_generate_report_prompt today question context report_source
            report_format total_words tone language)
       \<longleftrightarrow> report_source = ''web''
           \<or> sublist contract_numbers_directive context
           \<or> sublist contract_numbers_directive question
           \<or> (\<exists>t. tone = Some t \<and> sublist contract_numbers_directive t)
           \<or> sublist contract_numbers_directive (language @ ''.''))"
proof (cases "report_source = ''web''")
  case True
  then show ?thesis
    using markers_in_far_report directive_in_far_web_report by blast
next
  case False
  then show ?thesis
    using markers_in_far_report directive_in_far_report[OF False] by blast
qed

theorem far_report_markers_and_directive_witness:
  "sublist ''3. Recent relevant contract awards with pricing data.''
     (FARPart10PromptFamily_generate_report_prompt \<lparr>year = 2026, month = 3, day = 9\<rparr>
        ''q'' ''ctx'' ''web'' ''apa'' 800 (Some ''objective'') ''english'')
   \<and> sublist contract_numbers_directive
     (FARPart10PromptFamily_generate_report_prompt \<lparr>year = 2026, month = 3, day = 9\<rparr>
        ''q'' ''ctx'' ''web'' ''apa'' 800 (Some ''objective'') ''english'')
   \<and> \<not> sublist contract_numbers_directive
     (FARPart10PromptFamily_generate_report_prompt \<lparr>year = 2026, month = 3, day = 9\<rparr>
        ''q'' ''ctx'' ''local'' ''apa'' 800 (Some ''objective'') ''english'')"
  using far_report_markers_and_directive[of "\<lparr>year = 2026, month = 3, day = 9\<rparr>"
      "''q''" "''ctx''" "''web''" "''apa''" 800 "Some ''objective''" "''english''"]
    far_report_markers_and_directive[of "\<lparr>year = 2026, month = 3, day = 9\<rparr>"
      "''q''" "''ctx''" "''local''" "''apa''" 800 "Some ''objective''" "''english''"]
  by (simp add: required_element_markers_def short_not_directive)

text \<open>
  With the directive as the \<open>context\<close>, the prompt contains it although \<open>report_source\<close> is
  not \<open>web\<close>.
\<close>

theorem far_report_directive_counterexample:
  "''local'' \<noteq> ''web''
   \<and> sublist contract_numbers_directive
     (FARPart10PromptFamily_generate_report_prompt \<lparr>year = 2026, month = 3, day = 9\<rparr>
        ''q'' contract_numbers_directive ''local'' ''apa'' 800 None ''english'')"
proof -
  have "sublist contract_numbers_directive
     (FARPart10PromptFamily_generate_report_prompt \<lparr>year = 2026, month = 3, day = 9\<rparr>
        ''q'' contract_numbers_directive ''local'' ''apa'' 800 None ''english'')"
    by (rule sublist_if_eq[where ps = far_text_open]) (simp add: far_report_shape)
  then show ?thesis by simp
qed

subsection \<open>The tone directive of the base family\<close>

lemma opening_skip_left:
  "CHR ''W'' \<notin> set xs \<Longrightarrow>
     sublist tone_directive_opening (xs @ ys) \<longleftrightarrow> sublist tone_directive_opening ys"
  unfolding tone_directive_opening_def by (rule sublist_skip_left)

lemma opening_separator:
  "c \<notin> set tone_directive_opening \<Longrightarrow>
     sublist tone_directive_opening (xs @ c # ys)
       \<longleftrightarrow> sublist tone_directive_opening xs \<or> sublist tone_directive_opening ys"
  by (rule sublist_separator)

lemma opening_not_in_upper:
  "\<not> sublist tone_directive_opening (upper s @ '' citations.'')"
proof
  assume "sublist tone_directive_opening (upper s @ '' citations.'')"
  moreover have "CHR ''r'' \<notin> set (upper s)"
    by (rule upper_no_lowercase) (simp add: ascii_lowercase_def)
  ultimately have "sublist tone_directive_opening '' citations.''
      \<or> prefix (CHR ''r'' # ''ite in a '') '' citations.''"
    unfolding tone_directive_opening_def by (intro sublist_second_char)
  moreover have "\<not> sublist tone_directive_opening '' citations.''"
    by (rule not_sublist_char[of "CHR ''W''"]) (simp_all add: tone_directive_opening_def)
  ultimately show False by simp
qed

lemma opening_in_tone_clause:
  "sublist tone_directive_opening (tone_clause tone) \<longleftrightarrow> (\<exists>t. tone = Some t \<and> t \<noteq> [])"
proof (cases tone)
  case None
  then show ?thesis by (simp add: tone_clause_def tone_directive_opening_def)
next
  case (Some t)
  show ?thesis
  proof (cases "t = []")
    case True
    with Some show ?thesis by (simp add: tone_clause_def tone_directive_opening_def)
  next
    case False
    have "sublist tone_directive_opening (tone_directive_opening @ t @ '' tone.'')"
      by (rule sublist_append_rightI)
    with Some False show ?thesis by (simp add: tone_clause_def tone_directive_opening_def)
  qed
qed

lemma opening_in_base_report:
  "sublist tone_directive_opening
     (PromptFamily_generate_report_prompt question context report_source report_format total_words
        tone language)
   \<longleftrightarrow> (\<exists>t. tone = Some t \<and> t \<noteq> [])
       \<or> sublist tone_directive_opening context
       \<or> sublist tone_directive_opening question
       \<or> sublist tone_directive_opening language"
proof -
  let ?p = tone_directive_opening
  let ?r4 = "(bullet @ '' Language: '') @ language @ CHR ''.'' # ''\<newline>''"
  let ?r3 = "(bullet @ '' '') @ tone_clause tone @ CHR ''\<newline>'' # ?r4"
  let ?r2 = "(''.\<newline>'' @ bullet @ '' Use markdown + '') @ (upper report_format @ '' citations.'')
             @ CHR ''\<newline>'' # ?r3"
  let ?r1 = "(''\<newline>---\<newline>Using that information, draft a '' @ str_int total_words
              @ ''+ word report answering: \"'') @ question @ CHR 0x22 # ?r2"
  have dq: "CHR 0x22 \<notin> set ?p" and nl: "CHR ''\<newline>'' \<notin> set ?p" and dot: "CHR ''.'' \<notin> set ?p"
    by (simp_all add: tone_directive_opening_def)
  have W_int: "CHR ''W'' \<notin> set (str_int total_words)"
    by (rule letter_not_in_str_int) simp
  have "sublist ?p (PromptFamily_generate_report_prompt question context report_source
          report_format total_words tone language)
      \<longleftrightarrow> sublist ?p (''Information gathered: \"'' @ context @ CHR 0x22 # ?r1)"
    by (simp add: base_report_shape)
  also have "\<dots> \<longleftrightarrow> sublist ?p (context @ CHR 0x22 # ?r1)"
    by (rule opening_skip_left) simp
  also have "\<dots> \<longleftrightarrow> sublist ?p context \<or> sublist ?p ?r1"
    using dq by (rule opening_separator)
  also have "sublist ?p ?r1 \<longleftrightarrow> sublist ?p (question @ CHR 0x22 # ?r2)"
    using W_int by (intro opening_skip_left) simp
  also have "\<dots> \<longleftrightarrow> sublist ?p question \<or> sublist ?p ?r2"
    using dq by (rule opening_separator)
  also have "sublist ?p ?r2 \<longleftrightarrow> sublist ?p ((upper report_format @ '' citations.'') @ CHR ''\<newline>'' # ?r3)"
    by (rule opening_skip_left) simp
  also have "\<dots> \<longleftrightarrow> sublist ?p (upper report_format @ '' citations.'') \<or> sublist ?p ?r3"
    using nl by (rule opening_separator)
  also have "\<dots> \<longleftrightarrow> sublist ?p ?r3"
    using opening_not_in_upper by simp
  also have "\<dots> \<longleftrightarrow> sublist ?p (tone_clause tone @ CHR ''\<newline>'' # ?r4)"
    by (rule opening_skip_left) simp
  also have "\<dots> \<longleftrightarrow> sublist ?p (tone_clause tone) \<or> sublist ?p ?r4"
    using nl by (rule opening_separator)
  also have "sublist ?p (tone_clause tone) \<longleftrightarrow> (\<exists>t. tone = Some t \<and> t \<noteq> [])"
    by (rule opening_in_tone_clause)
  also have "sublist ?p ?r4 \<longleftrightarrow> sublist ?p (language @ CHR ''.'' # ''\<newline>'')"
    by (rule opening_skip_left) simp
  also have "\<dots> \<longleftrightarrow> sublist ?p language \<or> sublist ?p ''\<newline>''"
    using dot by (rule opening_separator)
  also have "sublist ?p ''\<newline>'' \<longleftrightarrow> False"
    using sublist_length_le[of ?p "''\<newline>''"] by (auto simp add: tone_directive_opening_def)
  finally show ?thesis by blast
qed

lemma formal_tone_in_base_report:
  "sublist ''Write in a formal tone.''
     (PromptFamily_generate_report_prompt question context report_source report_format total_words
        (Some ''formal'') language)"
  by (rule sublist_if_eq[where ps = "''Information gathered: \"'' @ context
      @ CHR 0x22 # (''\<newline>---\<newline>Using that information, draft a '' @ str_int total_words
                    @ ''+ word report answering: \"'')
      @ question
      @ CHR 0x22 # (''.\<newline>'' @ bullet @ '' Use markdown + '')
      @ (upper report_format @ '' citations.'')
      @ CHR ''\<newline>'' # (bullet @ '' '')"])
    (simp add: base_report_shape tone_clause_def)

lemma short_not_opening: "length xs < 11 \<Longrightarrow> \<not> sublist tone_directive_opening xs"
  using sublist_length_le[of tone_directive_opening xs]
  by (auto simp add: tone_directive_opening_def)

text \<open>
  Claim C5, as the code has it. The report prompt of the base family contains the opening
  words of a tone directive, \<open>Write in a\<close>, exactly when a non-empty \<open>tone\<close> is given or
  the caller's own \<open>context\<close>, \<open>question\<close> or \<open>language\<close> contains them. So with \<open>tone\<close>
  left out, \<open>None\<close> or empty, the template adds no tone directive, and the prompt has one
  only if the caller's text has. With \<open>tone="formal"\<close> the prompt contains
  \<open>Write in a formal tone.\<close>
\<close>

theorem base_report_tone_directive:
  "(sublist tone_directive_opening
      (PromptFamily_generate_report_prompt_call question context report_source kw)
    \<longleftrightarrow> (\<exists>t. kw_tone kw = Some (Some t) \<and> t \<noteq> [])
        \<or> sublist tone_directive_opening context
        \<or> sublist tone_directive_opening question
        \<or> sublist tone_directive_opening (or_default (kw_language kw) ''english''))
   \<and> (kw_tone kw = Some (Some ''formal'') \<longrightarrow>
        sublist ''Write in a formal tone.''
          (PromptFamily_generate_report_prompt_call question context report_source kw))"
proof -
  have "(\<exists>t. or_default (kw_tone kw) None = Some t \<and> t \<noteq> [])
      \<longleftrightarrow> (\<exists>t. kw_tone kw = Some (Some t) \<and> t \<noteq> [])"
    by (cases "kw_tone kw") (simp_all add: or_default_def)
  then show ?thesis
    using formal_tone_in_base_report
    by (auto simp add: PromptFamily_generate_report_prompt_call_def opening_in_base_report
        or_default_def)
qed

theorem base_report_tone_directive_witness:
  "\<not> sublist tone_directive_opening
      (PromptFamily_generate_report_prompt_call ''q'' ''ctx'' ''web'' omitted)
   \<and> \<not> sublist tone_directive_opening
      (PromptFamily_generate_report_prompt_call ''q'' ''ctx'' ''web''
         (omitted\<lparr>kw_tone := Some None\<rparr>))
   \<and> \<not> sublist tone_directive_opening
      (PromptFamily_generate_report_prompt_call ''q'' ''ctx'' ''web''
         (omitted\<lparr>kw_tone := Some (Some [])\<rparr>))
   \<and> sublist ''Write in a formal tone.''
      (PromptFamily_generate_report_prompt_call ''q'' ''ctx'' ''web''
         (omitted\<lparr>kw_tone := Some (Some ''formal'')\<rparr>))"
  using base_report_tone_directive[of "''q''" "''ctx''" "''web''" omitted]
    base_report_tone_directive[of "''q''" "''ctx''" "''web''" "omitted\<lparr>kw_tone := Some None\<rparr>"]
    base_report_tone_directive[of "''q''" "''ctx''" "''web''" "omitted\<lparr>kw_tone := Some (Some [])\<rparr>"]
    base_report_tone_directive[of "''q''" "''ctx''" "''web''" "omitted\<lparr>kw_tone := Some (Some ''formal'')\<rparr>"]
  by (simp add: omitted_def or_default_def short_not_opening)

text \<open>
  With \<open>tone\<close> left out and a question that is itself a tone directive, the prompt contains
  a tone directive.
\<close>

theorem base_report_tone_counterexample:
  "kw_tone omitted = None
   \<and> sublist ''Write in a formal tone.''
       (PromptFamily_generate_report_prompt_call ''Write in a formal tone.'' ''ctx'' ''web'' omitted)"
proof -
  have "sublist ''Write in a formal tone.''
       (PromptFamily_generate_report_prompt ''Write in a formal tone.'' ''ctx'' ''web'' ''apa''
          1000 None ''english'')"
    by (rule sublist_if_eq[where ps = "''Information gathered: \"'' @ ''ctx''
      @ CHR 0x22 # (''\<newline>---\<newline>Using that information, draft a '' @ str_int 1000
                    @ ''+ word report answering: \"'')"])
      (simp add: base_report_shape)
  then show ?thesis
    by (simp add: PromptFamily_generate_report_prompt_call_def omitted_def or_default_def)
qed

subsection \<open>Default values and unused arguments\<close>

text \<open>
  Claim C10. When \<open>total_words\<close> is left out, the report operation of the specialised
  family runs with 800 and its prompt asks for \<open>800\<close> words or more, and that of the base
  family runs with 1000 and its prompt asks for a \<open>1000+\<close> word report.
\<close>

theorem report_default_total_words:
  "kw_total_words kw = None \<longrightarrow>
     FARPart10PromptFamily_generate_report_prompt_call today question context report_source kw
       = FARPart10PromptFamily_generate_report_prompt today question context report_source
           (or_default (kw_report_format kw) ''apa'') 800
           (or_default (kw_tone kw) (Some ''objective'')) (or_default (kw_language kw) ''english'')
     \<and> sublist (''('' @ geq_sign @ ''800 words)'')
         (FARPart10PromptFamily_generate_report_prompt_call today question context report_source kw)
     \<and> PromptFamily_generate_report_prompt_call question context report_source kw
       = PromptFamily_generate_report_prompt question context report_source
           (or_default (kw_report_format kw) ''apa'') 1000
           (or_default (kw_tone kw) None) (or_default (kw_language kw) ''english'')
     \<and> sublist ''draft a 1000+ word report''
         (PromptFamily_generate_report_prompt_call question context report_source kw)"
proof
  assume tw: "kw_total_words kw = None"
  let ?rf = "or_default (kw_report_format kw) ''apa''"
  let ?lang = "or_default (kw_language kw) ''english''"
  have far: "FARPart10PromptFamily_generate_report_prompt_call today question context report_source kw
       = FARPart10PromptFamily_generate_report_prompt today question context report_source
           ?rf 800 (or_default (kw_tone kw) (Some ''objective'')) ?lang"
    using tw by (simp add: FARPart10PromptFamily_generate_report_prompt_call_def or_default_def)
  have base: "PromptFamily_generate_report_prompt_call question context report_source kw
       = PromptFamily_generate_report_prompt question context report_source
           ?rf 1000 (or_default (kw_tone kw) None) ?lang"
    using tw by (simp add: PromptFamily_generate_report_prompt_call_def or_default_def)
  have far_words: "sublist (''('' @ geq_sign @ ''800 words)'')
      (FARPart10PromptFamily_generate_report_prompt today question context report_source
           ?rf 800 (or_default (kw_tone kw) (Some ''objective'')) ?lang)"
    by (rule sublist_if_eq[where ps = "far_text_open @ context
          @ ''\"\<newline>---\<newline>Draft a concise FAR'' @ nbsp @ ''Part'' @ nbsp @ ''10 market research report ''"])
      (simp add: far_report_shape far_text_draft_def far_text_addressing_def str_int_800)
  have base_words: "sublist ''draft a 1000+ word report''
      (PromptFamily_generate_report_prompt question context report_source
           ?rf 1000 (or_default (kw_tone kw) None) ?lang)"
    by (rule sublist_if_eq[where ps = "''Information gathered: \"'' @ context
          @ ''\"\<newline>---\<newline>Using that information, ''"])
      (simp add: base_report_shape str_int_1000)
  from far base far_words base_words
  show "FARPart10PromptFamily_generate_report_prompt_call today question context report_source kw
       = FARPart10PromptFamily_generate_report_prompt today question context report_source
           (or_default (kw_report_format kw) ''apa'') 800
           (or_default (kw_tone kw) (Some ''objective'')) (or_default (kw_language kw) ''english'')
     \<and> sublist (''('' @ geq_sign @ ''800 words)'')
         (FARPart10PromptFamily_generate_report_prompt_call today question context report_source kw)
     \<and> PromptFamily_generate_report_prompt_call question context report_source kw
       = PromptFamily_generate_report_prompt question context report_source
           (or_default (kw_report_format kw) ''apa'') 1000
           (or_default (kw_tone kw) None) (or_default (kw_language kw) ''english'')
     \<and> sublist ''draft a 1000+ word report''
         (PromptFamily_generate_report_prompt_call question context report_source kw)"
    by simp
qed

theorem report_default_total_words_witness:
  "sublist (''('' @ geq_sign @ ''800 words)'')
     (FARPart10PromptFamily_generate_report_prompt_call \<lparr>year = 2026, month = 3, day = 9\<rparr>
        ''q'' ''ctx'' ''web'' omitted)
   \<and> sublist ''draft a 1000+ word report''
     (PromptFamily_generate_report_prompt_call ''q'' ''ctx'' ''web'' omitted)"
  using report_default_total_words[of omitted "\<lparr>year = 2026, month = 3, day = 9\<rparr>" "''q''" "''ctx''" "''web''"]
  by (auto simp add: omitted_def)

text \<open>
  Claim C8. In the base family the search-query prompt does not depend on \<open>report_type\<close>
  and \<open>context\<close>, and the report prompt does not depend on \<open>report_source\<close>: two calls that
  differ in these arguments only return the same text.
\<close>

theorem base_ops_ignore_unused_args:
  "PromptFamily_generate_search_queries_prompt question parent_query report_type max_iterations context
     = PromptFamily_generate_search_queries_prompt question parent_query report_type' max_iterations context'
   \<and> PromptFamily_generate_search_queries_prompt_call question parent_query report_type
        \<lparr>kw_max_iterations = mi, kw_context = context\<rparr>
     = PromptFamily_generate_search_queries_prompt_call question parent_query report_type'
        \<lparr>kw_max_iterations = mi, kw_context = context'\<rparr>
   \<and> PromptFamily_generate_report_prompt question rcontext report_source report_format total_words tone language
     = PromptFamily_generate_report_prompt question rcontext report_source' report_format total_words tone language
   \<and> PromptFamily_generate_report_prompt_call question rcontext report_source kw
     = PromptFamily_generate_report_prompt_call question rcontext report_source' kw"
  by (simp add: PromptFamily_generate_search_queries_prompt_def
      PromptFamily_generate_search_queries_prompt_call_def
      PromptFamily_generate_report_prompt_def PromptFamily_generate_report_prompt_call_def)

section \<open>Which operations can raise\<close>

lemma length_str_nat:
  "length (str_nat n) = (if n < 10 then 1 else Suc (length (str_nat (n div 10))))"
  by (subst str_nat.simps) simp

lemma length_str_nat_mono: "m \<le> n \<Longrightarrow> length (str_nat m) \<le> length (str_nat n)"
proof (induction n arbitrary: m rule: str_nat.induct)
  case (1 n)
  show ?case
  proof (cases "n < 10")
    case True
    with 1(2) have "m < 10" by simp
    with True show ?thesis by (simp add: length_str_nat)
  next
    case False
    show ?thesis
    proof (cases "m < 10")
      case True
      with False show ?thesis by (simp add: length_str_nat)
    next
      case m: False
      from 1(2) have "m div 10 \<le> n div 10" by (rule div_le_mono)
      with 1(1) False have "length (str_nat (m div 10)) \<le> length (str_nat (n div 10))"
        by simp
      with False m show ?thesis by (simp add: length_str_nat[of m] length_str_nat[of n])
    qed
  qed
qed

lemma digits_within_mono:
  assumes "digits_within max_str_digits i" and "\<bar>j\<bar> \<le> \<bar>i\<bar>"
  shows "digits_within max_str_digits j"
proof -
  from assms(2) have "nat \<bar>j\<bar> \<le> nat \<bar>i\<bar>" by simp
  then have "length (str_nat (nat \<bar>j\<bar>)) \<le> length (str_nat (nat \<bar>i\<bar>))"
    by (rule length_str_nat_mono)
  with assms(1) show ?thesis by (auto simp add: digits_within_def)
qed

lemma int_to_str_within:
  "digits_within max_str_digits i \<Longrightarrow> int_to_str max_str_digits i = Inr (str_int i)"
  by (simp add: int_to_str_def)

lemma sequence_Inr_iff:
  "(\<exists>ys. sequence xs = Inr ys) \<longleftrightarrow> (\<forall>x \<in> set xs. \<exists>y. x = Inr y)"
  by (induction xs) (auto split: sum.splits)

lemma range_written_within:
  assumes "digits_within max_str_digits n"
  shows "\<exists>ws. sequence (map (\<lambda>i. int_to_str max_str_digits (i + 1)) (range_py n)) = Inr ws"
proof -
  have "digits_within max_str_digits (i + 1)" if "i \<in> set (range_py n)" for i
  proof -
    from that have "0 \<le> i" and "i + 1 \<le> n" by (auto simp add: range_py_def)
    then have "\<bar>i + 1\<bar> \<le> \<bar>n\<bar>" by simp
    with assms show ?thesis by (rule digits_within_mono)
  qed
  then have "\<forall>x \<in> set (map (\<lambda>i. int_to_str max_str_digits (i + 1)) (range_py n)). \<exists>y. x = Inr y"
    by (auto simp add: int_to_str_within)
  then show ?thesis by (simp only: sequence_Inr_iff)
qed

lemma key_to_str_encodable:
  "key_encodable max_str_digits k \<Longrightarrow> \<exists>s. key_to_str max_str_digits k = Inr s"
  by (cases k) (simp_all add: int_to_str_within)

lemma iterencode_encodable:
  "json_encodable max_str_digits v \<Longrightarrow> \<exists>s. iterencode max_str_digits level v = Inr s"
proof (induction max_str_digits level v rule: iterencode.induct)
  case (3 max_str_digits level i)
  then show ?case by (simp add: int_to_str_within)
next
  case (6 max_str_digits level xs)
  show ?case
  proof (cases "xs = []")
    case True
    then show ?thesis by simp
  next
    case False
    from 6 False have "\<forall>x \<in> set xs. \<exists>y. iterencode max_str_digits (Suc level) x = Inr y"
      by (simp add: list_all_iff)
    then have "\<exists>ys. sequence (map (iterencode max_str_digits (Suc level)) xs) = Inr ys"
      by (simp add: sequence_Inr_iff)
    with False show ?thesis by auto
  qed
next
  case (7 max_str_digits level xs)
  show ?case
  proof (cases "xs = []")
    case True
    then show ?thesis by simp
  next
    case False
    from 7 False have "\<forall>x \<in> set xs. \<exists>y. iterencode max_str_digits (Suc level) x = Inr y"
      by (simp add: list_all_iff)
    then have "\<exists>ys. sequence (map (iterencode max_str_digits (Suc level)) xs) = Inr ys"
      by (simp add: sequence_Inr_iff)
    with False show ?thesis by auto
  qed
next
  case (8 max_str_digits level kvs)
  show ?case
  proof (cases "kvs = []")
    case True
    then show ?thesis by simp
  next
    case False
    let ?item = "\<lambda>(k, v).
                   case key_to_str max_str_digits k of
                     Inl e \<Rightarrow> Inl e
                   | Inr ks \<Rightarrow>
                       (case iterencode max_str_digits (Suc level) v of
                          Inl e \<Rightarrow> Inl e
                        | Inr s \<Rightarrow> Inr (encode_basestring_ascii ks @ '': '' @ s))"
    have "\<exists>y. ?item kv = Inr y" if "kv \<in> set kvs" for kv
    proof -
      obtain k v where kv: "kv = (k, v)" by (cases kv)
      from 8(2) that kv have enc: "key_encodable max_str_digits k" "json_encodable max_str_digits v"
        by (auto simp add: list_all_iff)
      from enc(1) obtain ks where ks: "key_to_str max_str_digits k = Inr ks"
        using key_to_str_encodable by blast
      from 8(1)[OF False that kv[symmetric] ks enc(2)]
      obtain s where "iterencode max_str_digits (Suc level) v = Inr s" by blast
      with ks kv show ?thesis by simp
    qed
    then have "\<exists>ys. sequence (map ?item kvs) = Inr ys"
      by (simp add: sequence_Inr_iff)
    with False show ?thesis by auto
  qed
qed simp_all

lemma tools_info_encodable:
  assumes "list_all (\<lambda>t. list_all (\<lambda>(k, v). json_encodable max_str_digits v) t) tools_info"
  shows "json_encodable max_str_digits
           (PList (map (\<lambda>t. PDict (map (\<lambda>(k, v). (KStr k, v)) t)) tools_info))"
  using assms by (auto simp add: list_all_iff)

text \<open>
  Claim C7, as the code has it. Memory and stack permitting: the formatter never raises,
  and writes a metadata key that a document lacks as the word \<open>None\<close>; the query and report
  operations of both families return their text whenever the \<open>int\<close> they write
  (\<open>max_iterations\<close>, \<open>total_words\<close>) is within the digit limit of the interpreter; the
  tool-selection operation returns a text whenever \<open>max_tools\<close> is within the limit and
  every value in \<open>tools_info\<close> is one that \<open>json.dumps\<close> encodes. Otherwise a call can
  raise.
\<close>

theorem operations_return_within_limits:
  "pretty_print_docs_checked docs top_n = Inr (pretty_print_docs docs top_n)
   \<and> format_doc \<lparr>metadata = Map.empty, page_content = body\<rparr>
       = ''Source: None\<newline>Title: None\<newline>Content: '' @ body
   \<and> (metadata d ''source'' = None \<longrightarrow> prefix ''Source: None\<newline>'' (format_doc d))
   \<and> (metadata d ''title'' = None \<longrightarrow> sublist ''\<newline>Title: None\<newline>'' (format_doc d))
   \<and> (digits_within max_str_digits max_iterations \<longrightarrow>
        PromptFamily_generate_search_queries_prompt_checked max_str_digits question parent_query
            report_type max_iterations context
          = Inr (PromptFamily_generate_search_queries_prompt question parent_query report_type
                   max_iterations context)
        \<and> FARPart10PromptFamily_generate_search_queries_prompt_checked max_str_digits question
            parent_query report_type max_iterations context
          = Inr (FARPart10PromptFamily_generate_search_queries_prompt question parent_query
                   report_type max_iterations context))
   \<and> (digits_within max_str_digits total_words \<longrightarrow>
        PromptFamily_generate_report_prompt_checked max_str_digits question rcontext
            report_source report_format total_words tone language
          = Inr (PromptFamily_generate_report_prompt question rcontext report_source
                   report_format total_words tone language)
        \<and> FARPart10PromptFamily_generate_report_prompt_checked max_str_digits today question
            rcontext report_source report_format total_words tone language
          = Inr (FARPart10PromptFamily_generate_report_prompt today question rcontext
                   report_source report_format total_words tone language))
   \<and> (digits_within max_str_digits max_tools
        \<and> list_all (\<lambda>t. list_all (\<lambda>(k, v). json_encodable max_str_digits v) t) tools_info \<longrightarrow>
        (\<exists>s. FARPart10PromptFamily_generate_mcp_tool_selection_prompt max_str_digits query
                tools_info max_tools = Inr s))"
proof -
  have a: "pretty_print_docs_checked docs top_n = Inr (pretty_print_docs docs top_n)"
    by (simp add: pretty_print_docs_checked_def)
  have b: "format_doc \<lparr>metadata = Map.empty, page_content = body\<rparr>
       = ''Source: None\<newline>Title: None\<newline>Content: '' @ body"
    by (simp add: format_doc_def format_optional_def)
  have c: "metadata d ''source'' = None \<longrightarrow> prefix ''Source: None\<newline>'' (format_doc d)"
    by (simp add: format_doc_def format_optional_def)
  have d: "metadata d ''title'' = None \<longrightarrow> sublist ''\<newline>Title: None\<newline>'' (format_doc d)"
  proof
    assume "metadata d ''title'' = None"
    then have "format_doc d = (''Source: '' @ format_optional (metadata d ''source''))
        @ ''\<newline>Title: None\<newline>'' @ (''Content: '' @ page_content d)"
      by (simp add: format_doc_def format_optional_def)
    then show "sublist ''\<newline>Title: None\<newline>'' (format_doc d)"
      by (rule sublist_if_eq)
  qed
  have e: "PromptFamily_generate_search_queries_prompt_checked max_str_digits question parent_query
            report_type max_iterations context
          = Inr (PromptFamily_generate_search_queries_prompt question parent_query report_type
                   max_iterations context)"
    if "digits_within max_str_digits max_iterations"
  proof -
    from that obtain ws
      where "sequence (map (\<lambda>i. int_to_str max_str_digits (i + 1)) (range_py max_iterations))
               = Inr ws"
      using range_written_within by blast
    with that show ?thesis
      by (simp add: PromptFamily_generate_search_queries_prompt_checked_def int_to_str_within)
  qed
  have f: "FARPart10PromptFamily_generate_search_queries_prompt_checked max_str_digits question
            parent_query report_type max_iterations context
          = Inr (FARPart10PromptFamily_generate_search_queries_prompt question parent_query
                   report_type max_iterations context)"
    if "digits_within max_str_digits max_iterations"
    using that
    by (simp add: FARPart10PromptFamily_generate_search_queries_prompt_checked_def
        int_to_str_within)
  have g: "PromptFamily_generate_report_prompt_checked max_str_digits question rcontext
            report_source report_format total_words tone language
          = Inr (PromptFamily_generate_report_prompt question rcontext report_source
                   report_format total_words tone language)"
    if "digits_within max_str_digits total_words"
    using that
    by (simp add: PromptFamily_generate_report_prompt_checked_def int_to_str_within)
  have h: "FARPart10PromptFamily_generate_report_prompt_checked max_str_digits today question
            rcontext report_source report_format total_words tone language
          = Inr (FARPart10PromptFamily_generate_report_prompt today question rcontext
                   report_source report_format total_words tone language)"
    if "digits_within max_str_digits total_words"
    using that
    by (simp add: FARPart10PromptFamily_generate_report_prompt_checked_def int_to_str_within)
  have i: "\<exists>s. FARPart10PromptFamily_generate_mcp_tool_selection_prompt max_str_digits query
                tools_info max_tools = Inr s"
    if "digits_within max_str_digits max_tools"
      and "list_all (\<lambda>t. list_all (\<lambda>(k, v). json_encodable max_str_digits v) t) tools_info"
  proof -
    let ?v = "PList (map (\<lambda>t. PDict (map (\<lambda>(k, v). (KStr k, v)) t)) tools_info)"
    from that(2) have "json_encodable max_str_digits ?v"
      by (rule tools_info_encodable)
    then have "\<exists>js. iterencode max_str_digits 0 ?v = Inr js"
      by (rule iterencode_encodable)
    then obtain js where "json_dumps max_str_digits ?v = Inr js"
      unfolding json_dumps_def by blast
    with that(1) show ?thesis
      by (simp add: FARPart10PromptFamily_generate_mcp_tool_selection_prompt_def
          int_to_str_within)
  qed
  from a b c d e f g h i show ?thesis by blast
qed

theorem operations_return_within_limits_witness:
  "PromptFamily_generate_search_queries_prompt_checked 4300 ''q'' [] ''t'' 3 None
     = Inr (PromptFamily_generate_search_queries_prompt ''q'' [] ''t'' 3 None)
   \<and> FARPart10PromptFamily_generate_report_prompt_checked 4300 \<lparr>year = 2026, month = 3, day = 9\<rparr>
       ''q'' ''ctx'' ''web'' ''apa'' 800 None ''english''
     = Inr (FARPart10PromptFamily_generate_report_prompt \<lparr>year = 2026, month = 3, day = 9\<rparr>
              ''q'' ''ctx'' ''web'' ''apa'' 800 None ''english'')
   \<and> (\<exists>s. FARPart10PromptFamily_generate_mcp_tool_selection_prompt 4300 ''q''
           [[(''name'', PStr ''search''),
             (''args'', PList [PInt 1, PFloat ''0.5'', PTuple [PNone],
                               PDict [(KInt 2, PBool True)]])]] 3 = Inr s)
   \<and> prefix ''Source: None\<newline>'' (format_doc \<lparr>metadata = [''title'' \<mapsto> ''t''], page_content = ''x''\<rparr>)
   \<and> sublist ''\<newline>Title: None\<newline>'' (format_doc \<lparr>metadata = Map.empty, page_content = ''x''\<rparr>)"
proof -
  have n3: "digits_within 4300 3" and n800: "digits_within 4300 800"
    and n1: "digits_within 4300 1" and n2: "digits_within 4300 2"
    by (simp_all add: digits_within_def str_nat.simps)
  show ?thesis
    using operations_return_within_limits[of "[]" None "''x''"
        "\<lparr>metadata = [''title'' \<mapsto> ''t''], page_content = ''x''\<rparr>" 4300 3 "''q''" "[]" "''t''" None
        800 "''ctx''" "''web''" "''apa''" None "''english''" "\<lparr>year = 2026, month = 3, day = 9\<rparr>" 3
        "[[(''name'', PStr ''search''),
           (''args'', PList [PInt 1, PFloat ''0.5'', PTuple [PNone],
                             PDict [(KInt 2, PBool True)]])]]" "''q''"]
      operations_return_within_limits[of "[]" None "''x''"
        "\<lparr>metadata = Map.empty, page_content = ''x''\<rparr>" 4300 3 "''q''" "[]" "''t''" None
        800 "''ctx''" "''web''" "''apa''" None "''english''" "\<lparr>year = 2026, month = 3, day = 9\<rparr>" 3
        "[]" "''q''"]
      n1 n2 n3 n800
    by (simp add: format_doc_def format_optional_def)
qed

text \<open>
  A tool descriptor that holds an object the encoder has no rule for: \<open>json.dumps\<close>, and
  with it the operation, raises \<open>TypeError\<close>.
\<close>

theorem tool_selection_object_counterexample:
  "FARPart10PromptFamily_generate_mcp_tool_selection_prompt 4300 ''q'' [[(''name'', PObject)]] 3
     = Inl TypeError"
  by (simp add: FARPart10PromptFamily_generate_mcp_tool_selection_prompt_def json_dumps_def)

section \<open>Factory and lookup\<close>

lemma getattr_report:
  "getattr fam ''generate_report_prompt''
     = Inr (Attr_report (case cls fam of
                           PromptFamily \<Rightarrow> (\<lambda>today. PromptFamily_generate_report_prompt_call)
                         | FARPart10PromptFamily \<Rightarrow> FARPart10PromptFamily_generate_report_prompt_call))"
  by (cases "cls fam")
    (simp_all add: getattr_def PromptFamily_namespace_def FARPart10PromptFamily_namespace_def)

text \<open>
  Claim C9. For every instance and every report type, in the table or not,
  \<open>get_prompt_by_report_type\<close> gives what it gives for \<open>ResearchReport\<close>: the
  \<open>generate_report_prompt\<close> of the instance's class.
\<close>

theorem report_type_resolves:
  "get_prompt_by_report_type s fam = get_prompt_by_report_type ''ResearchReport'' fam
   \<and> get_prompt_by_report_type s fam
     = Inr (Attr_report (case cls fam of
                           PromptFamily \<Rightarrow> (\<lambda>today. PromptFamily_generate_report_prompt_call)
                         | FARPart10PromptFamily \<Rightarrow> FARPart10PromptFamily_generate_report_prompt_call))"
  by (simp add: get_prompt_by_report_type_def dict_get_def report_type_mapping_def getattr_report)

text \<open>
  Claim C2. For a name that is not in the registry, \<open>get_prompt_family\<close> returns the very
  instance it returns for \<open>Default\<close> (the base class with the given configuration, hence
  the same result of every operation) and gives one warning, which quotes the name; for the
  two names of the registry it gives none. The report operation of the instance for
  \<open>FARPart10\<close> is the specialised one: its prompt contains the five required elements and
  is never the prompt of the base family.
\<close>

theorem unknown_family_falls_back:
  "name \<notin> set (map fst prompt_family_mapping) \<longrightarrow>
     fst (get_prompt_family name config) = fst (get_prompt_family ''Default'' config)
     \<and> cls (fst (get_prompt_family name config)) = PromptFamily
     \<and> snd (get_prompt_family name config)
         = [''Unknown prompt family '' @ [CHR 0x27] @ name @ [CHR 0x27] @ '', using Default.'']
     \<and> snd (get_prompt_family ''Default'' config) = []
     \<and> snd (get_prompt_family ''FARPart10'' config) = []
     \<and> getattr (fst (get_prompt_family ''Default'' config)) ''generate_report_prompt''
         = Inr (Attr_report (\<lambda>today. PromptFamily_generate_report_prompt_call))
     \<and> getattr (fst (get_prompt_family ''FARPart10'' config)) ''generate_report_prompt''
         = Inr (Attr_report FARPart10PromptFamily_generate_report_prompt_call)
     \<and> (\<forall>m \<in> set required_element_markers.
           sublist m (FARPart10PromptFamily_generate_report_prompt_call today question context
                        report_source kw))
     \<and> FARPart10PromptFamily_generate_report_prompt_call today question context report_source kw
         \<noteq> PromptFamily_generate_report_prompt_call question context report_source kw"
proof
  assume unknown: "name \<notin> set (map fst prompt_family_mapping)"
  then have none: "map_of prompt_family_mapping name = None"
    by (simp add: map_of_eq_None_iff)
  have a: "get_prompt_family name config
      = (\<lparr>cls = PromptFamily, cfg = config\<rparr>,
         [''Unknown prompt family '' @ [CHR 0x27] @ name @ [CHR 0x27] @ '', using Default.''])"
    using unknown none by (simp add: get_prompt_family_def dict_get_def)
  have b: "get_prompt_family ''Default'' config = (\<lparr>cls = PromptFamily, cfg = config\<rparr>, [])"
    by (simp add: get_prompt_family_def dict_get_def prompt_family_mapping_def)
  have c: "get_prompt_family ''FARPart10'' config = (\<lparr>cls = FARPart10PromptFamily, cfg = config\<rparr>, [])"
    by (simp add: get_prompt_family_def dict_get_def prompt_family_mapping_def)
  have d: "\<forall>m \<in> set required_element_markers.
           sublist m (FARPart10PromptFamily_generate_report_prompt_call today question context
                        report_source kw)"
    by (simp add: FARPart10PromptFamily_generate_report_prompt_call_def markers_in_far_report)
  have e: "FARPart10PromptFamily_generate_report_prompt_call today question context report_source kw
         \<noteq> PromptFamily_generate_report_prompt_call question context report_source kw"
    by (simp add: FARPart10PromptFamily_generate_report_prompt_call_def
        PromptFamily_generate_report_prompt_call_def far_report_not_base_report)
  from a b c d e
  show "fst (get_prompt_family name config) = fst (get_prompt_family ''Default'' config)
     \<and> cls (fst (get_prompt_family name config)) = PromptFamily
     \<and> snd (get_prompt_family name config)
         = [''Unknown prompt family '' @ [CHR 0x27] @ name @ [CHR 0x27] @ '', using Default.'']
     \<and> snd (get_prompt_family ''Default'' config) = []
     \<and> snd (get_prompt_family ''FARPart10'' config) = []
     \<and> getattr (fst (get_prompt_family ''Default'' config)) ''generate_report_prompt''
         = Inr (Attr_report (\<lambda>today. PromptFamily_generate_report_prompt_call))
     \<and> getattr (fst (get_prompt_family ''FARPart10'' config)) ''generate_report_prompt''
         = Inr (Attr_report FARPart10PromptFamily_generate_report_prompt_call)
     \<and> (\<forall>m \<in> set required_element_markers.
           sublist m (FARPart10PromptFamily_generate_report_prompt_call today question context
                        report_source kw))
     \<and> FARPart10PromptFamily_generate_report_prompt_call today question context report_source kw
         \<noteq> PromptFamily_generate_report_prompt_call question context report_source kw"
    by (simp add: getattr_report)
qed

theorem unknown_family_falls_back_witness:
  "get_prompt_family ''NoSuchFamily'' (None :: unit option)
     = (fst (get_prompt_family ''Default'' None),
        [''Unknown prompt family '' @ [CHR 0x27] @ ''NoSuchFamily'' @ [CHR 0x27] @ '', using Default.''])
   \<and> sublist ''4. Assessment of competition & capability.''
       (FARPart10PromptFamily_generate_report_prompt_call \<lparr>year = 2026, month = 3, day = 9\<rparr>
          ''q'' ''ctx'' ''web'' omitted)"
  using unknown_family_falls_back[of "''NoSuchFamily''" "None :: unit option"
      "\<lparr>year = 2026, month = 3, day = 9\<rparr>" "''q''" "''ctx''" "''web''" omitted]
  by (auto simp add: prompt_family_mapping_def required_element_markers_def prod_eq_iff)

end
